theory Spec2Isabelle
  imports Main "HOL-Library.Sublist"
begin

section \<open>Data model of the transcript persistence code (src/main.py)\<close>

text \<open>
  Python values that can sit in a message dictionary. \<open>PObj\<close> stands for any object
  that \<open>json.dumps\<close> rejects with \<open>TypeError\<close> (a coroutine, a set, bytes, ...).
\<close>

datatype pyval =
    PNone
  | PBool bool
  | PInt int
  | PStr string
  | PList "pyval list"
  | PDict "(string \<times> pyval) list"
  | PObj nat

text \<open>\<open>json.dumps v\<close> succeeds exactly on values without an opaque object inside.\<close>

fun serializable :: "pyval \<Rightarrow> bool" where
  "serializable PNone = True"
| "serializable (PBool b) = True"
| "serializable (PInt i) = True"
| "serializable (PStr s) = True"
| "serializable (PList vs) = list_all serializable vs"
| "serializable (PDict kvs) = list_all serializable (map snd kvs)"
| "serializable (PObj n) = False"

text \<open>Python truthiness, as used by \<open>if not msg.get("metadata", {}).get("stored", False)\<close>.\<close>

fun truthy :: "pyval \<Rightarrow> bool" where
  "truthy PNone = False"
| "truthy (PBool b) = b"
| "truthy (PInt i) = (i \<noteq> 0)"
| "truthy (PStr s) = (s \<noteq> [])"
| "truthy (PList vs) = (vs \<noteq> [])"
| "truthy (PDict kvs) = (kvs \<noteq> [])"
| "truthy (PObj n) = True"

text \<open>
  A message of the conversation log is a Python dict. The keys the persistence code
  reads are fields, \<open>None\<close> meaning that the key is absent; the producers of
  src/main.py put strings under role, timestamp, message_id and participant_id and a
  dict under metadata, which is what the field types say. Any further key is in
  \<open>extra\<close>.
\<close>

record message =
  role :: "string option"
  content :: "pyval option"
  timestamp :: "string option"
  message_id :: "string option"
  participant_id :: "string option"
  metadata :: "(string \<times> pyval) list option"
  extra :: "(string \<times> pyval) list"

record safe_message =
  sm_role :: string
  sm_content :: pyval
  sm_timestamp :: string
  sm_message_id :: string

text \<open>The JSON text produced by \<open>json.dumps\<close>, kept as the value it encodes.\<close>

datatype json = Json_message message | Json_safe safe_message

text \<open>\<open>insert_data\<close>: one row of the table conversation_histories.\<close>

record insert_data =
  row_session_id :: string
  row_participant_id :: string
  row_conversation :: json
  row_raw_conversation :: pyval
  row_message_count :: int
  row_user_email :: pyval
  row_timestamp :: string
  row_email_sent :: bool

record retry_item =
  retry_timestamp :: string
  item_session_id :: string
  item_participant_id :: string
  item_conversation :: safe_message
  item_raw_conversation :: pyval
  item_message_count :: int
  item_user_email :: pyval
  item_timestamp :: string
  item_email_sent :: bool
  retry_count :: int

text \<open>
  What \<open>supabase.table(...).upsert(...).execute()\<close> can do: return a response, of
  which the code reads whether \<open>data\<close> and \<open>error\<close> are present and truthy, or
  raise an exception with a type name and a message.
\<close>

datatype upsert_outcome =
    Response (has_data: bool) (has_error: bool)
  | Raises string string

text \<open>
  What \<open>init_supabase()\<close> can do: return False without a client (a missing
  environment variable, or \<open>create_client\<close> raising), or set the global client and
  return the result of verifying the table.
\<close>

datatype init_outcome = Init_no_client | Init_client_created bool

text \<open>
  The calls to the outside, in the order they are made. \<open>Sleep_ms n\<close> is
  \<open>await asyncio.sleep(n / 1000)\<close>; \<open>Spawn_store\<close> is
  \<open>asyncio.create_task(store_conversation_message(...))\<close>, whose body runs later.
\<close>

datatype io_event =
    Select_probe
  | Init_supabase
  | Upsert "insert_data list"
  | Sleep_ms nat
  | Spawn_store "string option" string nat

datatype log_level = Info | Warning | Error

datatype py_exception = TypeError

datatype 'a outcome = Returned 'a | Raised py_exception

record agent_obj =
  is_speaking_attr :: "bool option"

text \<open>
  The module's globals (\<open>supabase\<close>, \<open>session_id\<close>, \<open>agent\<close>,
  \<open>conversation_history\<close>, \<open>retry_queue\<close>), the message dicts they share by
  reference (\<open>heap\<close>, addressed by the entries of \<open>conversation_history\<close>), and the
  outside world: the \<open>n\<close>-th health select succeeds iff \<open>select_results n\<close>, the
  \<open>n\<close>-th \<open>init_supabase()\<close> ends as \<open>init_results n\<close> says, the \<open>n\<close>-th upsert ends as \<open>upsert_results n\<close>, and the clocks and the
  uuid generator are read in turn. \<open>trace\<close> records the calls made to the outside,
  \<open>logs\<close> the warnings and errors that the claims are about.
\<close>

record state =
  supabase :: bool
  session_id :: "string option"
  agent :: "agent_obj option"
  heap :: "nat \<Rightarrow> message"
  next_ref :: nat
  conversation_history :: "nat list"
  retry_queue :: "retry_item list"
  select_results :: "nat \<Rightarrow> bool"
  init_results :: "nat \<Rightarrow> init_outcome"
  upsert_results :: "nat \<Rightarrow> upsert_outcome"
  utc_now :: "nat \<Rightarrow> string"
  local_now :: "nat \<Rightarrow> string"
  uuid4 :: "nat \<Rightarrow> string"
  n_select :: nat
  n_init :: nat
  n_upsert :: nat
  n_utc :: nat
  n_local :: nat
  n_uuid :: nat
  trace :: "io_event list"
  logs :: "(log_level \<times> string) list"

definition MAX_RETRY_QUEUE_SIZE :: nat where
  "MAX_RETRY_QUEUE_SIZE = 1000"

section \<open>Clocks, identifiers, logging\<close>

definition get_current_timestamp :: "state \<Rightarrow> string \<times> state" where
  "get_current_timestamp s = (utc_now s (n_utc s), s\<lparr>n_utc := Suc (n_utc s)\<rparr>)"

definition datetime_now :: "state \<Rightarrow> string \<times> state" where
  "datetime_now s = (local_now s (n_local s), s\<lparr>n_local := Suc (n_local s)\<rparr>)"

definition new_uuid :: "state \<Rightarrow> string \<times> state" where
  "new_uuid s = (uuid4 s (n_uuid s), s\<lparr>n_uuid := Suc (n_uuid s)\<rparr>)"

definition log_msg :: "log_level \<Rightarrow> string \<Rightarrow> state \<Rightarrow> state" where
  "log_msg lvl txt s = s\<lparr>logs := logs s @ [(lvl, txt)]\<rparr>"

definition emit :: "io_event \<Rightarrow> state \<Rightarrow> state" where
  "emit e s = s\<lparr>trace := trace s @ [e]\<rparr>"

section \<open>add_to_retry_queue\<close>

text \<open>
  Python evaluates the default of \<open>dict.get(key, default)\<close> before the call, so the
  clock and the uuid generator are read whether or not the key is present. The
  \<open>except Exception\<close> branch of the source is not reachable on a dict argument.
\<close>

definition make_retry_item ::
  "string \<Rightarrow> string \<Rightarrow> message \<Rightarrow> string \<Rightarrow> string \<Rightarrow> string \<Rightarrow> retry_item" where
  "make_retry_item sid pid conversation now uid local =
     (let safe = \<lparr> sm_role = (case role conversation of Some r \<Rightarrow> r | None \<Rightarrow> ''unknown''),
                    sm_content = (case content conversation of Some c \<Rightarrow> c | None \<Rightarrow> PStr ''''),
                    sm_timestamp = (case timestamp conversation of Some t \<Rightarrow> t | None \<Rightarrow> now),
                    sm_message_id = (case message_id conversation of Some i \<Rightarrow> i | None \<Rightarrow> uid) \<rparr>
      in \<lparr> retry_timestamp = local,
           item_session_id = sid,
           item_participant_id = pid,
           item_conversation = safe,
           item_raw_conversation = sm_content safe,
           item_message_count = 1,
           item_user_email = PStr '''',
           item_timestamp = sm_timestamp safe,
           item_email_sent = False,
           retry_count = 0 \<rparr>)"

definition add_to_retry_queue :: "string \<Rightarrow> string \<Rightarrow> nat \<Rightarrow> state \<Rightarrow> bool \<times> state" where
  "add_to_retry_queue sid pid conv s =
     (let (now, s1) = get_current_timestamp s;
          (uid, s2) = new_uuid s1;
          (local, s3) = datetime_now s2;
          item = make_retry_item sid pid (heap s3 conv) now uid local;
          q = retry_queue s3 @ [item];
          q' = (if length q > MAX_RETRY_QUEUE_SIZE
                then drop (length q - MAX_RETRY_QUEUE_SIZE) q else q)
      in (True, s3\<lparr>retry_queue := q'\<rparr>))"

section \<open>check_supabase_health\<close>

definition init_supabase :: "state \<Rightarrow> bool \<times> state" where
  "init_supabase s =
     (let s1 = s\<lparr>n_init := Suc (n_init s), trace := trace s @ [Init_supabase]\<rparr>
      in case init_results s (n_init s) of
           Init_no_client \<Rightarrow> (False, s1)
         | Init_client_created ok \<Rightarrow> (ok, s1\<lparr>supabase := True\<rparr>))"

definition check_supabase_health :: "state \<Rightarrow> bool \<times> state" where
  "check_supabase_health s =
     (if \<not> supabase s
      then init_supabase (log_msg Warning ''Supabase client not initialized, attempting to initialize'' s)
      else
        let s1 = s\<lparr>n_select := Suc (n_select s), trace := trace s @ [Select_probe]\<rparr>
        in if select_results s (n_select s) then (True, s1)
           else init_supabase (log_msg Warning ''Supabase connection error, attempting to reconnect'' s1))"

text \<open>
  \<open>supabase.table("conversation_histories").upsert(rows, on_conflict=...).execute()\<close>.
  On a missing client the attribute access raises AttributeError before anything is
  sent (the message is Python's, without its quotation marks).
\<close>

definition upsert :: "insert_data list \<Rightarrow> state \<Rightarrow> upsert_outcome \<times> state" where
  "upsert rows s =
     (if \<not> supabase s
      then (Raises ''AttributeError'' ''NoneType object has no attribute table'', s)
      else (upsert_results s (n_upsert s),
            s\<lparr>n_upsert := Suc (n_upsert s), trace := trace s @ [Upsert rows]\<rparr>))"

section \<open>Strings\<close>

text \<open>
  \<open>str.lower()\<close> on the characters of code point below 256 (the exception messages
  are read as Latin-1 code points), and the substring test \<open>needle in hay\<close>.
\<close>

definition lower_char :: "char \<Rightarrow> char" where
  "lower_char c =
     (let n = (of_char c :: nat)
      in if (65 \<le> n \<and> n \<le> 90) \<or> (192 \<le> n \<and> n \<le> 222 \<and> n \<noteq> 215)
         then char_of (n + 32) else c)"

definition py_lower :: "string \<Rightarrow> string" where
  "py_lower s = map lower_char s"

primrec str_in :: "string \<Rightarrow> string \<Rightarrow> bool" where
  "str_in needle [] = (needle = [])"
| "str_in needle (c # cs) = (prefix needle (c # cs) \<or> str_in needle cs)"

section \<open>store_conversation_message\<close>

definition is_speaking :: "state \<Rightarrow> bool" where
  "is_speaking s =
     (case agent s of
        None \<Rightarrow> False
      | Some a \<Rightarrow> (case is_speaking_attr a of None \<Rightarrow> False | Some b \<Rightarrow> b))"

definition is_empty_dict :: "message \<Rightarrow> bool" where
  "is_empty_dict m =
     (role m = None \<and> content m = None \<and> timestamp m = None \<and> message_id m = None \<and>
      participant_id m = None \<and> metadata m = None \<and> extra m = [])"

definition serializable_message :: "message \<Rightarrow> bool" where
  "serializable_message m =
     ((case content m of None \<Rightarrow> True | Some c \<Rightarrow> serializable c) \<and>
      (case metadata m of None \<Rightarrow> True | Some md \<Rightarrow> list_all serializable (map snd md)) \<and>
      list_all serializable (map snd (extra m)))"

definition user_email_of :: "message \<Rightarrow> pyval" where
  "user_email_of m =
     (case metadata m of
        None \<Rightarrow> PStr ''''
      | Some md \<Rightarrow> (case map_of md ''user_email'' of None \<Rightarrow> PStr '''' | Some v \<Rightarrow> v))"

definition make_safe_message :: "message \<Rightarrow> string \<Rightarrow> string \<Rightarrow> safe_message" where
  "make_safe_message m now mid =
     \<lparr> sm_role = (case role m of Some r \<Rightarrow> r | None \<Rightarrow> ''unknown''),
       sm_content = (case content m of Some c \<Rightarrow> c | None \<Rightarrow> PStr ''''),
       sm_timestamp = (case timestamp m of Some t \<Rightarrow> t | None \<Rightarrow> now),
       sm_message_id = mid \<rparr>"

text \<open>Lines 485 to 490: the message gets a \<open>message_id\<close> when it has none.\<close>

definition scm_message_id :: "nat \<Rightarrow> state \<Rightarrow> string \<times> state" where
  "scm_message_id conv s =
     (let (uid, s2) = new_uuid s;
          mid = (case message_id (heap s2 conv) of Some i \<Rightarrow> i | None \<Rightarrow> uid);
          s3 = (if message_id (heap s2 conv) = None
                then s2\<lparr>heap := (heap s2)(conv := (heap s2 conv)\<lparr>message_id := Some mid\<rparr>)\<rparr>
                else s2)
      in (mid, s3))"

text \<open>
  The dict \<open>insert_data\<close> as both writers build it: from the message itself, and
  from its reduced record.
\<close>

definition full_insert_data :: "string \<Rightarrow> string \<Rightarrow> message \<Rightarrow> string \<Rightarrow> insert_data" where
  "full_insert_data sid pid m now =
     \<lparr> row_session_id = sid, row_participant_id = pid,
       row_conversation = Json_message m,
       row_raw_conversation = (case content m of Some c \<Rightarrow> c | None \<Rightarrow> PStr ''''),
       row_message_count = 1,
       row_user_email = user_email_of m,
       row_timestamp = (case timestamp m of Some t \<Rightarrow> t | None \<Rightarrow> now),
       row_email_sent = False \<rparr>"

definition safe_insert_data :: "string \<Rightarrow> string \<Rightarrow> safe_message \<Rightarrow> insert_data" where
  "safe_insert_data sid pid safe =
     \<lparr> row_session_id = sid, row_participant_id = pid,
       row_conversation = Json_safe safe,
       row_raw_conversation = sm_content safe,
       row_message_count = 1,
       row_user_email = PStr '''',
       row_timestamp = sm_timestamp safe,
       row_email_sent = False \<rparr>"

text \<open>
  Lines 492 to 539: the row to insert. \<open>json.dumps(conversation)\<close> raising
  \<open>TypeError\<close> leads to the reduced record \<open>safe_message\<close>, whose own
  \<open>json.dumps\<close> stands in the handler, outside any \<open>try\<close>. The
  \<open>json.dumps\<close> of line 543 sees only the strings and the boolean of the row,
  so it returns; the two debug lines it feeds are not recorded in \<open>logs\<close>.
\<close>

definition scm_insert_data ::
  "string \<Rightarrow> string \<Rightarrow> nat \<Rightarrow> string \<Rightarrow> state \<Rightarrow> insert_data outcome \<times> state" where
  "scm_insert_data sid pid conv mid s =
     (let m = heap s conv in
      if serializable_message m then
        let (now, s1) = get_current_timestamp s
        in (Returned (full_insert_data sid pid m now), s1)
      else
        let s1 = log_msg Error ''Failed to serialize message data'' s;
            (now, s2) = get_current_timestamp s1;
            safe = make_safe_message m now mid
        in if serializable (sm_content safe) then
             let (now2, s3) = get_current_timestamp s2
             in (Returned (safe_insert_data sid pid safe), s3)
           else (Raised TypeError, s2))"

text \<open>Lines 545 to 601: the upsert of the row and what its result leads to.\<close>

definition scm_upsert ::
  "string \<Rightarrow> string \<Rightarrow> nat \<Rightarrow> insert_data \<Rightarrow> state \<Rightarrow> bool outcome \<times> state" where
  "scm_upsert sid pid conv row s =
     (case upsert [row] s of
        (Response d e, s1) \<Rightarrow>
          if d then (Returned True, s1)
          else if e
          then (Returned False,
                snd (add_to_retry_queue sid pid conv (log_msg Error ''Supabase upsert error'' s1)))
          else (Returned False,
                snd (add_to_retry_queue sid pid conv
                  (log_msg Warning ''Unexpected response from Supabase'' s1)))
      | (Raises ty msg, s1) \<Rightarrow>
          if str_in ''duplicate key'' (py_lower msg)
          then (Returned True, s1)
          else (Returned False,
                snd (add_to_retry_queue sid pid conv
                  (log_msg Error ''Exception during Supabase storage'' s1))))"

definition store_conversation_message ::
  "string \<Rightarrow> string \<Rightarrow> nat \<Rightarrow> state \<Rightarrow> bool outcome \<times> state" where
  "store_conversation_message sid pid conv s =
     (if is_speaking s \<and> pid = ''system''
      then (Returned False, snd (add_to_retry_queue sid pid conv s))
      else
        let (supabase_available, s1) = check_supabase_health s in
        if \<not> supabase_available
        then (Returned False,
              snd (add_to_retry_queue sid pid conv
                (log_msg Error ''Supabase client not available, adding message to retry queue'' s1)))
        else if is_empty_dict (heap s1 conv)
        then (Returned False, log_msg Error ''Message data is empty, skipping storage'' s1)
        else
          let (mid, s3) = scm_message_id conv s1
          in case scm_insert_data sid pid conv mid s3 of
               (Raised e, s4) \<Rightarrow> (Raised e, s4)
             | (Returned row, s4) \<Rightarrow> scm_upsert sid pid conv row s4)"

section \<open>store_full_conversation\<close>

definition is_stored :: "message \<Rightarrow> bool" where
  "is_stored m =
     (case metadata m of
        None \<Rightarrow> False
      | Some md \<Rightarrow> (case map_of md ''stored'' of None \<Rightarrow> False | Some v \<Rightarrow> truthy v))"

text \<open>
  \<open>if "metadata" not in msg: msg["metadata"] = {}\<close> and then
  \<open>msg["metadata"]["stored"] = True\<close>: the key keeps its place when present and is
  added last otherwise.
\<close>

fun dict_set :: "string \<Rightarrow> pyval \<Rightarrow> (string \<times> pyval) list \<Rightarrow> (string \<times> pyval) list" where
  "dict_set k v [] = [(k, v)]"
| "dict_set k v ((k', v') # kvs) = (if k' = k then (k, v) # kvs else (k', v') # dict_set k v kvs)"

definition set_stored :: "message \<Rightarrow> message" where
  "set_stored m =
     m\<lparr>metadata := Some (dict_set ''stored'' (PBool True)
                        (case metadata m of None \<Rightarrow> [] | Some md \<Rightarrow> md))\<rparr>"

text \<open>
  Lines 647 to 718: the row of one unstored message, \<open>None\<close> when neither the
  message nor its reduced record can be serialised (the message is then left out of
  this flush, with an error logged).
\<close>

definition sfc_insert_data :: "string \<Rightarrow> nat \<Rightarrow> state \<Rightarrow> insert_data option \<times> state" where
  "sfc_insert_data sid r s =
     (let m = heap s r;
          pid = (case participant_id m of
                   Some p \<Rightarrow> p
                 | None \<Rightarrow> (case role m of Some x \<Rightarrow> x | None \<Rightarrow> ''unknown''))
      in
      if serializable_message m then
        let (now, s1) = get_current_timestamp s
        in (Some (full_insert_data sid pid m now), s1)
      else
        let s1 = log_msg Error ''Failed to serialize message for batch storage'' s;
            (now, s2) = get_current_timestamp s1;
            safe = make_safe_message m now (case message_id m of Some i \<Rightarrow> i | None \<Rightarrow> [])
        in if serializable (sm_content safe) then
             let (now2, s3) = get_current_timestamp s2
             in (Some (safe_insert_data sid pid safe), s3)
           else (None, log_msg Error ''Could not create safe version of message'' s2))"

text \<open>Lines 639 to 718: the loop that collects \<open>messages_to_store\<close>.\<close>

fun sfc_collect :: "string \<Rightarrow> nat list \<Rightarrow> insert_data list \<Rightarrow> state \<Rightarrow> insert_data list \<times> state" where
  "sfc_collect sid [] messages_to_store s = (messages_to_store, s)"
| "sfc_collect sid (r # rs) messages_to_store s =
     (if is_stored (heap s r) then sfc_collect sid rs messages_to_store s
      else
        let s1 = (if message_id (heap s r) = None
                  then (let (uid, s') = new_uuid s
                        in s'\<lparr>heap := (heap s')(r := (heap s' r)\<lparr>message_id := Some uid\<rparr>)\<rparr>)
                  else s);
            (row, s2) = sfc_insert_data sid r s1
        in sfc_collect sid rs (messages_to_store @ (case row of Some x \<Rightarrow> [x] | None \<Rightarrow> [])) s2)"

text \<open>
  Lines 740 to 749 (and 768 to 775): mark the first message of the log whose
  timestamp is the row's and whose role is the row's participant_id, then \<open>break\<close>.
\<close>

fun mark_first :: "insert_data \<Rightarrow> nat list \<Rightarrow> state \<Rightarrow> state" where
  "mark_first msg_data [] s = s"
| "mark_first msg_data (r # rs) s =
     (if timestamp (heap s r) = Some (row_timestamp msg_data) \<and>
         (case role (heap s r) of Some x \<Rightarrow> x | None \<Rightarrow> ''unknown'') = row_participant_id msg_data
      then s\<lparr>heap := (heap s)(r := set_stored (heap s r))\<rparr>
      else mark_first msg_data rs s)"

fun sfc_mark_batch :: "insert_data list \<Rightarrow> state \<Rightarrow> state" where
  "sfc_mark_batch [] s = s"
| "sfc_mark_batch (msg_data # batch) s =
     sfc_mark_batch batch (mark_first msg_data (conversation_history s) s)"

text \<open>Lines 756 to 778: the members of a batch whose upsert raised, one at a time.\<close>

fun sfc_fallback :: "insert_data list \<Rightarrow> state \<Rightarrow> state" where
  "sfc_fallback [] s = s"
| "sfc_fallback (msg_data # batch) s =
     (case upsert [msg_data] s of
        (Response d e, s1) \<Rightarrow>
          sfc_fallback batch (if d then mark_first msg_data (conversation_history s1) s1 else s1)
      | (Raises ty msg, s1) \<Rightarrow>
          sfc_fallback batch (log_msg Error ''Error in fallback single storage'' s1))"

definition sfc_batch :: "insert_data list \<Rightarrow> state \<Rightarrow> state" where
  "sfc_batch batch s =
     (case upsert batch s of
        (Response d e, s1) \<Rightarrow>
          if d then sfc_mark_batch batch s1
          else log_msg Warning ''Unexpected response from batch upsert'' s1
      | (Raises ty msg, s1) \<Rightarrow>
          sfc_fallback batch (log_msg Error ''Error during batch upsert'' s1))"

text \<open>
  Lines 724 to 781: \<open>for i in range(0, len(messages_to_store), batch_size)\<close> with
  \<open>batch = messages_to_store[i:i + batch_size]\<close> and the sleep that ends each round.
\<close>

function sfc_batches :: "nat \<Rightarrow> nat \<Rightarrow> insert_data list \<Rightarrow> state \<Rightarrow> state" where
  "sfc_batches batch_size i messages_to_store s =
     (if batch_size = 0 \<or> length messages_to_store \<le> i then s
      else sfc_batches batch_size (i + batch_size) messages_to_store
             (emit (Sleep_ms 500) (sfc_batch (take batch_size (drop i messages_to_store)) s)))"
  by pat_completeness auto
termination
  by (relation "measure (\<lambda>(b, i, xs, s). length xs - i)") auto

definition store_full_conversation :: "state \<Rightarrow> state" where
  "store_full_conversation s =
     (if \<not> supabase s
      then log_msg Error ''Cannot store full conversation: Supabase client is not initialized'' s
      else case session_id s of
        None \<Rightarrow> log_msg Error ''Cannot store full conversation: session_id is not set'' s
      | Some sid \<Rightarrow>
          if sid = [] then log_msg Error ''Cannot store full conversation: session_id is not set'' s
          else if conversation_history s = [] then s
          else if length (filter (\<lambda>r. \<not> is_stored (heap s r)) (conversation_history s)) = 0 then s
          else
            let (messages_to_store, s1) = sfc_collect sid (conversation_history s) [] s
            in sfc_batches 10 0 messages_to_store s1)"

section \<open>process_retry_queue\<close>

text \<open>
  \<open>item["retry_count"] = item.get("retry_count", 0) + 1\<close> and
  \<open>retry_queue.append(item)\<close>.
\<close>

definition bump :: "retry_item \<Rightarrow> retry_item" where
  "bump item = item\<lparr>retry_count := retry_count item + 1\<rparr>"

definition requeue :: "retry_item \<Rightarrow> state \<Rightarrow> state" where
  "requeue item s = s\<lparr>retry_queue := retry_queue s @ [bump item]\<rparr>"

text \<open>Lines 2563 to 2576: the row built from a retry item.\<close>

definition item_insert_data :: "retry_item \<Rightarrow> insert_data" where
  "item_insert_data item =
     \<lparr> row_session_id = item_session_id item,
       row_participant_id = item_participant_id item,
       row_conversation = Json_safe (item_conversation item),
       row_raw_conversation = item_raw_conversation item,
       row_message_count = item_message_count item,
       row_user_email = item_user_email item,
       row_timestamp = item_timestamp item,
       row_email_sent = item_email_sent item \<rparr>"

text \<open>
  Lines 2543 to 2601: the body of \<open>for item in temp_queue\<close>, on the state and
  \<open>success_count\<close>. \<open>json.dumps\<close> of the item's conversation raising is caught by
  the \<open>except Exception\<close> of the body, like an upsert that raises; the two
  \<open>continue\<close> statements skip the sleep that ends the body.
\<close>

definition prq_item :: "retry_item \<Rightarrow> state \<times> nat \<Rightarrow> state \<times> nat" where
  "prq_item item acc =
     (let (s, success_count) = acc in
      if retry_count item \<ge> 5
      then (log_msg Warning ''Skipping message that has failed too many times'' s, success_count)
      else
        let (supabase_healthy, s1) = check_supabase_health s in
        if \<not> supabase_healthy
        then (requeue item
                (log_msg Warning ''Supabase connection not healthy, adding back to retry queue'' s1),
              success_count)
        else if \<not> serializable (sm_content (item_conversation item))
        then (emit (Sleep_ms 200) (requeue item (log_msg Error ''Error processing retry item'' s1)),
              success_count)
        else
          let (now, s2) = get_current_timestamp s1;
              insert_data = item_insert_data item
          in case upsert [insert_data] s2 of
               (Response d e, s3) \<Rightarrow>
                 if d then (emit (Sleep_ms 200) s3, success_count + 1)
                 else (emit (Sleep_ms 200)
                         (requeue item (log_msg Warning ''Failed to store retry item'' s3)),
                       success_count)
             | (Raises ty msg, s3) \<Rightarrow>
                 (emit (Sleep_ms 200)
                    (requeue item (log_msg Error ''Error processing retry item'' s3)),
                  success_count))"

text \<open>The loop \<open>for item in temp_queue\<close>.\<close>

definition prq_loop :: "retry_item list \<Rightarrow> state \<times> nat \<Rightarrow> state \<times> nat" where
  "prq_loop temp_queue acc = foldl (\<lambda>acc item. prq_item item acc) acc temp_queue"

definition process_retry_queue :: "nat \<Rightarrow> state \<Rightarrow> nat \<times> state" where
  "process_retry_queue batch_size s =
     (if retry_queue s = [] then (0, s)
      else if \<not> supabase s
      then (0, log_msg Warning ''Cannot process retry queue: Supabase client is not initialized'' s)
      else
        let items_to_process = min batch_size (length (retry_queue s));
            temp_queue = take items_to_process (retry_queue s);
            s0 = s\<lparr>retry_queue := drop items_to_process (retry_queue s)\<rparr>;
            (s', success_count) = prq_loop temp_queue (s0, 0)
        in (success_count, s'))"

section \<open>check_connection_status\<close>

text \<open>
  Lines 1476 to 1523: one round of \<open>while True\<close> in the idle watchdog. The round
  takes \<open>time.time()\<close> as \<open>now\<close> (in whole seconds, read after the sleep), the watchdog's
  \<open>last_activity_time\<close> and the parser
  \<open>datetime.fromisoformat(...).timestamp()\<close> (\<open>None\<close> for \<open>ValueError\<close>); it
  returns the new \<open>last_activity_time\<close> and whether the loop goes on. In the
  source \<open>raise ForceDisconnectError(...)\<close> is the only statement of a \<open>try\<close>
  whose \<open>except Exception\<close> logs the error and leaves the loop with \<open>break\<close>:
  the exception reaches nothing else.
\<close>

definition inactivity_threshold :: int where
  "inactivity_threshold = 300"

definition latest_msg_time :: "(string \<Rightarrow> int option) \<Rightarrow> state \<Rightarrow> int" where
  "latest_msg_time parse s =
     (case timestamp (heap s (last (conversation_history s))) of
        None \<Rightarrow> 0
      | Some t \<Rightarrow> (case parse t of Some x \<Rightarrow> x | None \<Rightarrow> 0))"

definition check_connection_status_round ::
  "(string \<Rightarrow> int option) \<Rightarrow> int \<Rightarrow> int \<Rightarrow> state \<Rightarrow> (int \<times> bool) \<times> state" where
  "check_connection_status_round parse now last_activity_time s =
     (let s1 = emit (Sleep_ms 120000) s;
          last_activity_time' =
            (if conversation_history s1 \<noteq> [] \<and> latest_msg_time parse s1 > last_activity_time
             then latest_msg_time parse s1 else last_activity_time);
          inactivity_duration = now - last_activity_time'
      in
      if inactivity_duration > inactivity_threshold then
        let s2 = log_msg Warning ''Auto-disconnect triggered after inactivity'' s1;
            (ts, s3) = get_current_timestamp s2;
            system_msg = \<lparr> role = Some ''system'',
                           content = Some (PStr ''Call automatically ended due to inactivity.''),
                           timestamp = Some ts, message_id = None, participant_id = None,
                           metadata = None, extra = [] \<rparr>;
            s4 = (if system_msg \<notin> set (map (heap s3) (conversation_history s3))
                  then emit (Spawn_store (session_id s3) ''system'' (next_ref s3))
                         (s3\<lparr>heap := (heap s3)(next_ref s3 := system_msg),
                             next_ref := Suc (next_ref s3),
                             conversation_history := conversation_history s3 @ [next_ref s3]\<rparr>)
                  else s3)
        in ((last_activity_time', False), log_msg Error ''Error during auto-disconnect'' s4)
      else ((last_activity_time', True), s1))"

section \<open>Notions used to state the properties\<close>

text \<open>\<open>q[-n:]\<close>: the \<open>n\<close> newest entries of a queue.\<close>

definition keep_newest :: "nat \<Rightarrow> 'a list \<Rightarrow> 'a list" where
  "keep_newest n q = drop (length q - n) q"

text \<open>A run of calls of \<open>add_to_retry_queue\<close>, one per request (session, participant, message).\<close>

fun enqueue_all :: "(string \<times> string \<times> nat) list \<Rightarrow> state \<Rightarrow> state" where
  "enqueue_all [] s = s"
| "enqueue_all ((sid, pid, conv) # reqs) s =
     enqueue_all reqs (snd (add_to_retry_queue sid pid conv s))"

text \<open>
  The item that the \<open>k\<close>-th call of such a run builds: each call reads each clock
  and the uuid generator once.
\<close>

definition created_item :: "state \<Rightarrow> nat \<Rightarrow> string \<times> string \<times> nat \<Rightarrow> retry_item" where
  "created_item s k req =
     (case req of (sid, pid, conv) \<Rightarrow>
        make_retry_item sid pid (heap s conv)
          (utc_now s (n_utc s + k)) (uuid4 s (n_uuid s + k)) (local_now s (n_local s + k)))"

definition created_items :: "state \<Rightarrow> (string \<times> string \<times> nat) list \<Rightarrow> retry_item list" where
  "created_items s reqs = map (\<lambda>k. created_item s k (reqs ! k)) [0..<length reqs]"

text \<open>The events of a call: what it added to the trace.\<close>

definition new_events :: "state \<Rightarrow> state \<Rightarrow> io_event list" where
  "new_events s s' = drop (length (trace s)) (trace s')"

fun is_probe :: "io_event \<Rightarrow> bool" where
  "is_probe Select_probe = True"
| "is_probe Init_supabase = True"
| "is_probe e = False"

fun is_upsert :: "io_event \<Rightarrow> bool" where
  "is_upsert (Upsert rows) = True"
| "is_upsert e = False"

text \<open>The events of one run of \<open>check_supabase_health\<close>.\<close>

definition health_events :: "state \<Rightarrow> io_event list" where
  "health_events s =
     (if \<not> supabase s then [Init_supabase]
      else if select_results s (n_select s) then [Select_probe]
      else [Select_probe, Init_supabase])"

text \<open>
  A retry item made for message \<open>m\<close> of a session and participant, and a queue
  \<open>q'\<close> that is \<open>q\<close> with such an item enqueued.
\<close>

definition item_for :: "string \<Rightarrow> string \<Rightarrow> message \<Rightarrow> retry_item \<Rightarrow> bool" where
  "item_for sid pid m item =
     (item_session_id item = sid \<and> item_participant_id item = pid \<and> retry_count item = 0 \<and>
      sm_role (item_conversation item) = (case role m of Some r \<Rightarrow> r | None \<Rightarrow> ''unknown'') \<and>
      sm_content (item_conversation item) = (case content m of Some c \<Rightarrow> c | None \<Rightarrow> PStr '''') \<and>
      item_raw_conversation item = (case content m of Some c \<Rightarrow> c | None \<Rightarrow> PStr '''') \<and>
      (case timestamp m of Some t \<Rightarrow> item_timestamp item = t | None \<Rightarrow> True))"

definition enqueued_for ::
  "string \<Rightarrow> string \<Rightarrow> message \<Rightarrow> retry_item list \<Rightarrow> retry_item list \<Rightarrow> bool" where
  "enqueued_for sid pid m q q' =
     (q' \<noteq> [] \<and> q' = keep_newest MAX_RETRY_QUEUE_SIZE (q @ [last q']) \<and> item_for sid pid m (last q'))"

text \<open>The reduced record of a message can be serialised iff its content can.\<close>

definition content_serializable :: "message \<Rightarrow> bool" where
  "content_serializable m = serializable (case content m of Some c \<Rightarrow> c | None \<Rightarrow> PStr '''')"

text \<open>
  The flush as the amended claim C5 words it. \<open>chunks n xs\<close> cuts \<open>xs\<close> into
  consecutive groups of \<open>n\<close> (the last one may be shorter). \<open>flush_events\<close> lists
  the calls: each group is upserted; a group whose upsert raises is followed by one
  upsert per member; every round ends with the sleep of half a second. The \<open>k\<close>-th
  upsert of the session ends as \<open>out k\<close> says.
\<close>

function chunks :: "nat \<Rightarrow> 'a list \<Rightarrow> 'a list list" where
  "chunks n xs = (if n = 0 \<or> xs = [] then [] else take n xs # chunks n (drop n xs))"
  by pat_completeness auto
termination
  by (relation "measure (\<lambda>(n, xs). length xs)") auto

fun flush_events :: "(nat \<Rightarrow> upsert_outcome) \<Rightarrow> nat \<Rightarrow> insert_data list list \<Rightarrow> io_event list" where
  "flush_events out k [] = []"
| "flush_events out k (b # bs) =
     (case out k of
        Response d e \<Rightarrow> Upsert b # Sleep_ms 500 # flush_events out (Suc k) bs
      | Raises ty msg \<Rightarrow>
          Upsert b # map (\<lambda>row. Upsert [row]) b @ Sleep_ms 500 #
          flush_events out (Suc k + length b) bs)"

text \<open>
  The rows that such a flush has written: the members of a group answered with data,
  and the members of a group that raised whose own upsert is answered with data.
\<close>

fun written_singly :: "(nat \<Rightarrow> upsert_outcome) \<Rightarrow> nat \<Rightarrow> insert_data list \<Rightarrow> insert_data list" where
  "written_singly out k [] = []"
| "written_singly out k (row # rows) =
     (case out k of
        Response d e \<Rightarrow> (if d then [row] else []) @ written_singly out (Suc k) rows
      | Raises ty msg \<Rightarrow> written_singly out (Suc k) rows)"

fun written_rows :: "(nat \<Rightarrow> upsert_outcome) \<Rightarrow> nat \<Rightarrow> insert_data list list \<Rightarrow> insert_data list" where
  "written_rows out k [] = []"
| "written_rows out k (b # bs) =
     (case out k of
        Response d e \<Rightarrow> (if d then b else []) @ written_rows out (Suc k) bs
      | Raises ty msg \<Rightarrow>
          written_singly out (Suc k) b @ written_rows out (Suc k + length b) bs)"

text \<open>
  The log entry that a written row marks: the first one whose timestamp is the row's
  and whose role (\<open>unknown\<close> when absent) is the row's participant_id.
\<close>

definition row_matches :: "insert_data \<Rightarrow> message \<Rightarrow> bool" where
  "row_matches row m =
     (timestamp m = Some (row_timestamp row) \<and>
      (case role m of Some x \<Rightarrow> x | None \<Rightarrow> ''unknown'') = row_participant_id row)"

definition first_match :: "(nat \<Rightarrow> message) \<Rightarrow> nat list \<Rightarrow> insert_data \<Rightarrow> nat option" where
  "first_match h refs row = find (\<lambda>r. row_matches row (h r)) refs"

text \<open>
  The flush gives a message without \<open>message_id\<close> a fresh one and changes nothing
  else of it before marking: \<open>forget_id\<close> is a message up to that key.
\<close>

definition forget_id :: "message \<Rightarrow> message" where
  "forget_id m = m\<lparr>message_id := None\<rparr>"

text \<open>
  \<open>row_for sid m row\<close>: \<open>row\<close> is a row that the flush builds for message \<open>m\<close>
  of session \<open>sid\<close>, from the message itself when it can be serialised and from its
  reduced record otherwise.
\<close>

definition row_for :: "string \<Rightarrow> message \<Rightarrow> insert_data \<Rightarrow> bool" where
  "row_for sid m row =
     (row_session_id row = sid \<and>
      row_participant_id row =
        (case participant_id m of
           Some p \<Rightarrow> p
         | None \<Rightarrow> (case role m of Some x \<Rightarrow> x | None \<Rightarrow> ''unknown'')) \<and>
      row_raw_conversation row = (case content m of Some c \<Rightarrow> c | None \<Rightarrow> PStr '''') \<and>
      (case timestamp m of Some t \<Rightarrow> row_timestamp row = t | None \<Rightarrow> True) \<and>
      (case row_conversation row of
         Json_message m' \<Rightarrow>
           serializable_message m \<and> forget_id m' = forget_id m \<and> message_id m' \<noteq> None
       | Json_safe safe \<Rightarrow>
           \<not> serializable_message m \<and>
           sm_role safe = (case role m of Some x \<Rightarrow> x | None \<Rightarrow> ''unknown'') \<and>
           sm_content safe = (case content m of Some c \<Rightarrow> c | None \<Rightarrow> PStr '''')))"

text \<open>\<open>messages_to_store\<close> as the flush of session \<open>sid\<close> collects it in state \<open>s\<close>.\<close>

definition sfc_rows :: "string \<Rightarrow> state \<Rightarrow> insert_data list" where
  "sfc_rows sid s = fst (sfc_collect sid (conversation_history s) [] s)"

text \<open>The heap after marking for one written row.\<close>

definition mark_heap :: "nat list \<Rightarrow> (nat \<Rightarrow> message) \<Rightarrow> insert_data \<Rightarrow> (nat \<Rightarrow> message)" where
  "mark_heap refs h row =
     (case first_match h refs row of None \<Rightarrow> h | Some r \<Rightarrow> h(r := set_stored (h r)))"

text \<open>The \<open>message_id\<close> that a single-message write works with.\<close>

definition scm_mid :: "state \<Rightarrow> nat \<Rightarrow> string" where
  "scm_mid s conv = (case message_id (heap s conv) of Some i \<Rightarrow> i | None \<Rightarrow> uuid4 s (n_uuid s))"

section \<open>Concrete sessions\<close>

definition example_message :: message where
  "example_message =
     \<lparr> role = Some ''user'', content = Some (PStr ''hello''),
       timestamp = Some ''2025-01-01T10:00:00+00:00'', message_id = None,
       participant_id = None, metadata = Some [(''stored'', PBool False)], extra = [] \<rparr>"

text \<open>
  A session with one unstored message in the log, a reachable store that answers every
  upsert with data, and nobody speaking.
\<close>

definition example_state :: state where
  "example_state =
     \<lparr> supabase = True, session_id = Some ''session-1'', agent = None,
       heap = (\<lambda>r. example_message), next_ref = 1, conversation_history = [0],
       retry_queue = [],
       select_results = (\<lambda>n. True), init_results = (\<lambda>n. Init_no_client),
       upsert_results = (\<lambda>n. Response True False),
       utc_now = (\<lambda>n. ''2025-01-01T10:00:05+00:00''),
       local_now = (\<lambda>n. ''2025-01-01T12:00:05''),
       uuid4 = (\<lambda>n. replicate (Suc n) CHR ''u''),
       n_select = 0, n_init = 0, n_upsert = 0, n_utc = 0, n_local = 0, n_uuid = 0,
       trace = [], logs = [] \<rparr>"

definition example_requests :: "(string \<times> string \<times> nat) list" where
  "example_requests = replicate 1001 (''session-1'', ''user'', 0)"

text \<open>The same session while the agent is speaking.\<close>

definition speaking_state :: state where
  "speaking_state = example_state\<lparr>agent := Some \<lparr>is_speaking_attr = Some True\<rparr>\<rparr>"

text \<open>The same session with a store that rejects the upsert as a duplicate, or times out.\<close>

definition duplicate_state :: state where
  "duplicate_state =
     example_state\<lparr>upsert_results :=
       (\<lambda>n. Raises ''APIError'' ''Duplicate key value violates unique constraint'')\<rparr>"

definition timeout_state :: state where
  "timeout_state = example_state\<lparr>upsert_results := (\<lambda>n. Raises ''TimeoutError'' ''network timeout'')\<rparr>"

text \<open>
  A session with twelve unstored messages of distinct timestamps, whose second upsert
  raises.
\<close>

definition twelve_state :: state where
  "twelve_state =
     example_state\<lparr>
       heap := (\<lambda>r. example_message\<lparr>timestamp := Some (replicate (Suc r) CHR ''t'')\<rparr>),
       next_ref := 12,
       conversation_history := [0, 1, 2, 3, 4, 5, 6, 7, 8, 9, 10, 11],
       upsert_results := (\<lambda>n. if n = 1 then Raises ''APIError'' ''timeout'' else Response True False)\<rparr>"

text \<open>
  A session with eleven unstored messages, the first two with the same role and
  timestamp. The store rejects the group of ten (two of its rows have the same key),
  answers each of the ten single upserts with data, and answers the group of one
  without data.
\<close>

definition eleven_state :: state where
  "eleven_state =
     example_state\<lparr>
       heap := (\<lambda>r. if r \<le> 1 then example_message
                     else example_message\<lparr>timestamp := Some (replicate r CHR ''t'')\<rparr>),
       next_ref := 11,
       conversation_history := [0, 1, 2, 3, 4, 5, 6, 7, 8, 9, 10],
       upsert_results :=
         (\<lambda>n. if n = 0
              then Raises ''APIError'' ''ON CONFLICT DO UPDATE command cannot affect row a second time''
              else if n \<le> 10 then Response True False else Response False False)\<rparr>"

text \<open>The first session with a store that cannot be reached.\<close>

definition unreachable_state :: state where
  "unreachable_state = example_state\<lparr>select_results := (\<lambda>n. False)\<rparr>"

text \<open>The unreachable store also refuses every upsert.\<close>

definition refusing_state :: state where
  "refusing_state =
     unreachable_state\<lparr>upsert_results := (\<lambda>n. Raises ''ConnectError'' ''connection refused'')\<rparr>"

text \<open>
  The first session with a message that carries an object \<open>json.dumps\<close> rejects:
  beside its content, or as its content.
\<close>

definition coroutine_state :: state where
  "coroutine_state = example_state\<lparr>heap := (\<lambda>r. example_message\<lparr>extra := [(''task'', PObj 0)]\<rparr>)\<rparr>"


text \<open>A retry item for the message of the first session, fresh and after five failures.\<close>

definition example_item :: retry_item where
  "example_item =
     make_retry_item ''session-1'' ''user'' example_message
       ''2025-01-01T10:00:05+00:00'' ''u'' ''2025-01-01T12:00:05''"

definition exhausted_item :: retry_item where
  "exhausted_item = example_item\<lparr>retry_count := 5\<rparr>"

text \<open>The first session with the exhausted item alone in the retry queue.\<close>

definition exhausted_state :: state where
  "exhausted_state = example_state\<lparr>retry_queue := [exhausted_item]\<rparr>"

text \<open>A timestamp parser for the watchdog: every timestamp of the log is second 1000.\<close>

definition example_parse :: "string \<Rightarrow> int option" where
  "example_parse t = Some 1000"

section \<open>The retry queue is bounded\<close>

lemma keep_newest_append: "keep_newest n (keep_newest n xs @ ys) = keep_newest n (xs @ ys)"
proof (cases "n \<le> length xs")
  case True
  then show ?thesis by (simp add: keep_newest_def add.commute)
next
  case False
  then show ?thesis by (simp add: keep_newest_def)
qed

lemma length_keep_newest: "length (keep_newest n q) = min n (length q)"
  by (simp add: keep_newest_def)

lemma add_to_retry_queue_queue:
  "retry_queue (snd (add_to_retry_queue sid pid conv s)) =
     keep_newest MAX_RETRY_QUEUE_SIZE (retry_queue s @ [created_item s 0 (sid, pid, conv)])"
  by (simp add: add_to_retry_queue_def keep_newest_def get_current_timestamp_def new_uuid_def
      datetime_now_def Let_def created_item_def)

lemma add_to_retry_queue_frame [simp]:
  "heap (snd (add_to_retry_queue sid pid conv s)) = heap s"
  "trace (snd (add_to_retry_queue sid pid conv s)) = trace s"
  "logs (snd (add_to_retry_queue sid pid conv s)) = logs s"
  "conversation_history (snd (add_to_retry_queue sid pid conv s)) = conversation_history s"
  "supabase (snd (add_to_retry_queue sid pid conv s)) = supabase s"
  "n_select (snd (add_to_retry_queue sid pid conv s)) = n_select s"
  "n_init (snd (add_to_retry_queue sid pid conv s)) = n_init s"
  "n_upsert (snd (add_to_retry_queue sid pid conv s)) = n_upsert s"
  "n_utc (snd (add_to_retry_queue sid pid conv s)) = Suc (n_utc s)"
  "n_uuid (snd (add_to_retry_queue sid pid conv s)) = Suc (n_uuid s)"
  "n_local (snd (add_to_retry_queue sid pid conv s)) = Suc (n_local s)"
  "utc_now (snd (add_to_retry_queue sid pid conv s)) = utc_now s"
  "uuid4 (snd (add_to_retry_queue sid pid conv s)) = uuid4 s"
  "local_now (snd (add_to_retry_queue sid pid conv s)) = local_now s"
  "fst (add_to_retry_queue sid pid conv s) = True"
  by (simp_all add: add_to_retry_queue_def get_current_timestamp_def new_uuid_def datetime_now_def Let_def)

lemma created_item_shift:
  "created_item (snd (add_to_retry_queue sid pid conv s)) k req = created_item s (Suc k) req"
  by (simp add: created_item_def split: prod.splits)

lemma created_items_Cons:
  "created_items s (req # reqs) =
     created_item s 0 req #
     created_items (snd (add_to_retry_queue (fst req) (fst (snd req)) (snd (snd req)) s)) reqs"
proof -
  have "[0..<length (req # reqs)] = 0 # map Suc [0..<length reqs]"
    by (simp add: upt_conv_Cons map_Suc_upt del: upt_Suc)
  then show ?thesis
    by (simp add: created_items_def created_item_shift comp_def del: upt_Suc)
qed

lemma enqueue_all_queue:
  "retry_queue (enqueue_all reqs s) =
     (if reqs = [] then retry_queue s
      else keep_newest MAX_RETRY_QUEUE_SIZE (retry_queue s @ created_items s reqs))"
proof (induction reqs arbitrary: s)
  case Nil
  then show ?case by simp
next
  case (Cons req reqs)
  obtain sid pid conv where req: "req = (sid, pid, conv)" by (cases req) auto
  let ?s1 = "snd (add_to_retry_queue sid pid conv s)"
  show ?case
  proof (cases "reqs = []")
    case True
    then show ?thesis
      by (simp add: req add_to_retry_queue_queue created_items_def)
  next
    case False
    have "retry_queue (enqueue_all (req # reqs) s) =
            keep_newest MAX_RETRY_QUEUE_SIZE (retry_queue ?s1 @ created_items ?s1 reqs)"
      using Cons.IH [of ?s1] False by (simp add: req)
    also have "\<dots> = keep_newest MAX_RETRY_QUEUE_SIZE
                       ((retry_queue s @ [created_item s 0 req]) @ created_items ?s1 reqs)"
      by (simp only: add_to_retry_queue_queue keep_newest_append req)
    also have "\<dots> = keep_newest MAX_RETRY_QUEUE_SIZE (retry_queue s @ created_items s (req # reqs))"
      by (simp add: req created_items_Cons [of s "(sid, pid, conv)" reqs])
    finally show ?thesis by simp
  qed
qed

text \<open>
  Claim C3. After any call of \<open>add_to_retry_queue\<close> the retry queue holds at most
  1000 items: it is the 1000 newest of the old queue followed by the new item. Starting
  from an empty queue, 1001 calls leave exactly 1000 items, namely the items of the
  calls 2 to 1001 in order: the last one is present, and the first one is absent when
  the items are distinct.
\<close>

theorem retry_queue_bounded:
  "length (retry_queue (snd (add_to_retry_queue sid pid conv s))) \<le> MAX_RETRY_QUEUE_SIZE \<and>
   MAX_RETRY_QUEUE_SIZE = 1000 \<and>
   retry_queue (snd (add_to_retry_queue sid pid conv s)) =
     keep_newest MAX_RETRY_QUEUE_SIZE (retry_queue s @ [created_item s 0 (sid, pid, conv)]) \<and>
   (retry_queue s = [] \<and> length reqs = 1001 \<longrightarrow>
      length (retry_queue (enqueue_all reqs s)) = 1000 \<and>
      retry_queue (enqueue_all reqs s) = tl (created_items s reqs) \<and>
      last (created_items s reqs) \<in> set (retry_queue (enqueue_all reqs s)) \<and>
      (distinct (created_items s reqs) \<longrightarrow>
         hd (created_items s reqs) \<notin> set (retry_queue (enqueue_all reqs s))))"
proof -
  have a: "length (retry_queue (snd (add_to_retry_queue sid pid conv s))) \<le> MAX_RETRY_QUEUE_SIZE"
    by (simp add: add_to_retry_queue_queue length_keep_newest)
  have b: "retry_queue (enqueue_all reqs s) = tl (created_items s reqs)"
    if "retry_queue s = []" "length reqs = 1001"
  proof -
    have "length (created_items s reqs) = 1001" using that by (simp add: created_items_def)
    then have "keep_newest MAX_RETRY_QUEUE_SIZE (created_items s reqs) = tl (created_items s reqs)"
      by (simp add: keep_newest_def MAX_RETRY_QUEUE_SIZE_def drop_Suc)
    moreover have "reqs \<noteq> []" using that by auto
    ultimately show ?thesis using that by (simp add: enqueue_all_queue)
  qed
  have c: "length (tl (created_items s reqs)) = 1000 \<and>
           last (created_items s reqs) \<in> set (tl (created_items s reqs)) \<and>
           (distinct (created_items s reqs) \<longrightarrow>
              hd (created_items s reqs) \<notin> set (tl (created_items s reqs)))"
    if "length reqs = 1001"
  proof -
    have len: "length (created_items s reqs) = 1001" using that by (simp add: created_items_def)
    then obtain x xs where xs: "created_items s reqs = x # xs" "length xs = 1000"
      by (cases "created_items s reqs") auto
    then have "xs \<noteq> []" by auto
    then show ?thesis using xs by (auto simp: last_in_set)
  qed
  show ?thesis using a b c by (simp add: add_to_retry_queue_queue MAX_RETRY_QUEUE_SIZE_def)
qed

lemma example_items_distinct: "distinct (created_items example_state example_requests)"
proof -
  have "inj_on (\<lambda>k. created_item example_state k (example_requests ! k)) {0..<1001}"
  proof (rule inj_onI)
    fix j k
    assume j: "j \<in> {0..<1001::nat}" and k: "k \<in> {0..<1001::nat}"
      and eq: "created_item example_state j (example_requests ! j) =
               created_item example_state k (example_requests ! k)"
    from j k have "example_requests ! j = (''session-1'', ''user'', 0)"
      "example_requests ! k = (''session-1'', ''user'', 0)"
      by (simp_all add: example_requests_def)
    with eq have "sm_message_id (item_conversation (created_item example_state j (''session-1'', ''user'', 0))) =
                  sm_message_id (item_conversation (created_item example_state k (''session-1'', ''user'', 0)))"
      by simp
    then have "replicate (Suc j) CHR ''u'' = replicate (Suc k) CHR ''u''"
      by (simp add: created_item_def make_retry_item_def example_state_def example_message_def)
    then have "length (replicate (Suc j) CHR ''u'') = length (replicate (Suc k) CHR ''u'')"
      by (rule arg_cong)
    then show "j = k" by simp
  qed
  then show ?thesis
    by (simp add: created_items_def distinct_map example_requests_def)
qed

theorem retry_queue_bounded_witness:
  "length (retry_queue (enqueue_all example_requests example_state)) = 1000 \<and>
   last (created_items example_state example_requests)
     \<in> set (retry_queue (enqueue_all example_requests example_state)) \<and>
   hd (created_items example_state example_requests)
     \<notin> set (retry_queue (enqueue_all example_requests example_state))"
proof -
  have q: "retry_queue example_state = []" by (simp add: example_state_def)
  have n: "length example_requests = 1001" by (simp add: example_requests_def)
  show ?thesis
    using retry_queue_bounded [of "''session-1''" "''user''" 0 example_state example_requests]
      q n example_items_distinct
    by blast
qed

section \<open>The health check and the single-message write\<close>

lemma check_supabase_health_trace:
  "trace (snd (check_supabase_health s)) = trace s @ health_events s"
  by (simp add: check_supabase_health_def init_supabase_def health_events_def log_msg_def Let_def
      split: init_outcome.splits)

lemma check_supabase_health_frame [simp]:
  "heap (snd (check_supabase_health s)) = heap s"
  "retry_queue (snd (check_supabase_health s)) = retry_queue s"
  "conversation_history (snd (check_supabase_health s)) = conversation_history s"
  "n_upsert (snd (check_supabase_health s)) = n_upsert s"
  "upsert_results (snd (check_supabase_health s)) = upsert_results s"
  "n_utc (snd (check_supabase_health s)) = n_utc s"
  "n_uuid (snd (check_supabase_health s)) = n_uuid s"
  "n_local (snd (check_supabase_health s)) = n_local s"
  "utc_now (snd (check_supabase_health s)) = utc_now s"
  "uuid4 (snd (check_supabase_health s)) = uuid4 s"
  "local_now (snd (check_supabase_health s)) = local_now s"
  by (simp_all add: check_supabase_health_def init_supabase_def log_msg_def Let_def
      split: init_outcome.splits)

lemma check_supabase_health_True:
  "fst (check_supabase_health s) \<Longrightarrow> supabase (snd (check_supabase_health s))"
  by (auto simp: check_supabase_health_def init_supabase_def log_msg_def Let_def
      split: init_outcome.splits if_splits)

lemma health_events_probe:
  "health_events s \<noteq> []" "list_all is_probe (health_events s)" "filter is_upsert (health_events s) = []"
  by (simp_all add: health_events_def)

lemma keep_newest_last: "0 < n \<Longrightarrow> last (keep_newest n (q @ [x])) = x"
  by (simp add: keep_newest_def)

lemma keep_newest_nonempty: "0 < n \<Longrightarrow> keep_newest n (q @ [x]) \<noteq> []"
  by (simp add: keep_newest_def)

lemma enqueued_forI:
  assumes "retry_queue t = q"
    and "role (heap t conv) = role m" "content (heap t conv) = content m"
      "timestamp (heap t conv) = timestamp m"
  shows "enqueued_for sid pid m q (retry_queue (snd (add_to_retry_queue sid pid conv t)))"
proof -
  let ?x = "created_item t 0 (sid, pid, conv)"
  have ne: "keep_newest MAX_RETRY_QUEUE_SIZE (q @ [?x]) \<noteq> []"
    by (rule keep_newest_nonempty) (simp add: MAX_RETRY_QUEUE_SIZE_def)
  have "item_for sid pid m ?x"
    using assms(2-4)
    by (simp add: item_for_def created_item_def make_retry_item_def split: option.splits)
  then show ?thesis
    using ne assms(1)
    by (simp add: enqueued_for_def add_to_retry_queue_queue keep_newest_last MAX_RETRY_QUEUE_SIZE_def)
qed

lemma enqueued_for_grows: "enqueued_for sid pid m q q' \<Longrightarrow> q' \<noteq> []"
  by (simp add: enqueued_for_def)

lemma scm_message_id_frame [simp]:
  "retry_queue (snd (scm_message_id conv s)) = retry_queue s"
  "conversation_history (snd (scm_message_id conv s)) = conversation_history s"
  "trace (snd (scm_message_id conv s)) = trace s"
  "supabase (snd (scm_message_id conv s)) = supabase s"
  "n_upsert (snd (scm_message_id conv s)) = n_upsert s"
  "upsert_results (snd (scm_message_id conv s)) = upsert_results s"
  "role (heap (snd (scm_message_id conv s)) r) = role (heap s r)"
  "content (heap (snd (scm_message_id conv s)) r) = content (heap s r)"
  "timestamp (heap (snd (scm_message_id conv s)) r) = timestamp (heap s r)"
  "metadata (heap (snd (scm_message_id conv s)) r) = metadata (heap s r)"
  "extra (heap (snd (scm_message_id conv s)) r) = extra (heap s r)"
  by (simp_all add: scm_message_id_def new_uuid_def Let_def)

lemma scm_insert_data_frame [simp]:
  "heap (snd (scm_insert_data sid pid conv mid s)) = heap s"
  "retry_queue (snd (scm_insert_data sid pid conv mid s)) = retry_queue s"
  "conversation_history (snd (scm_insert_data sid pid conv mid s)) = conversation_history s"
  "trace (snd (scm_insert_data sid pid conv mid s)) = trace s"
  "supabase (snd (scm_insert_data sid pid conv mid s)) = supabase s"
  "n_upsert (snd (scm_insert_data sid pid conv mid s)) = n_upsert s"
  "upsert_results (snd (scm_insert_data sid pid conv mid s)) = upsert_results s"
  by (simp_all add: scm_insert_data_def get_current_timestamp_def log_msg_def Let_def split_def)

lemma scm_insert_data_full:
  "serializable_message (heap s conv) \<Longrightarrow>
   fst (scm_insert_data sid pid conv mid s) =
     Returned (full_insert_data sid pid (heap s conv) (utc_now s (n_utc s)))"
  by (simp add: scm_insert_data_def get_current_timestamp_def)

lemma scm_insert_data_safe:
  "\<not> serializable_message (heap s conv) \<Longrightarrow> content_serializable (heap s conv) \<Longrightarrow>
   fst (scm_insert_data sid pid conv mid s) =
     Returned (safe_insert_data sid pid (make_safe_message (heap s conv) (utc_now s (n_utc s)) mid))"
  by (simp add: scm_insert_data_def get_current_timestamp_def log_msg_def Let_def
      content_serializable_def make_safe_message_def split: option.splits)

lemma scm_insert_data_logs:
  "\<not> serializable_message (heap s conv) \<Longrightarrow>
   logs (snd (scm_insert_data sid pid conv mid s)) =
     logs s @ [(Error, ''Failed to serialize message data'')]"
  by (simp add: scm_insert_data_def get_current_timestamp_def log_msg_def Let_def)

lemma serializable_message_content: "serializable_message m \<Longrightarrow> content_serializable m"
  by (simp add: serializable_message_def content_serializable_def split: option.splits)

lemma scm_insert_data_Raised:
  "\<not> content_serializable (heap s conv) \<Longrightarrow>
   fst (scm_insert_data sid pid conv mid s) = Raised TypeError"
  using serializable_message_content [of "heap s conv"]
  by (auto simp: scm_insert_data_def get_current_timestamp_def log_msg_def Let_def split_def
      content_serializable_def make_safe_message_def)

lemma scm_insert_data_Returned:
  "content_serializable (heap s conv) \<Longrightarrow>
   \<exists>row. fst (scm_insert_data sid pid conv mid s) = Returned row"
  by (auto simp: scm_insert_data_def get_current_timestamp_def log_msg_def Let_def split_def
      content_serializable_def make_safe_message_def)

lemma scm_upsert_trace:
  "supabase s \<Longrightarrow> trace (snd (scm_upsert sid pid conv row s)) = trace s @ [Upsert [row]]"
  by (simp add: scm_upsert_def upsert_def log_msg_def split: upsert_outcome.splits)

lemma scm_upsert_frame [simp]:
  "heap (snd (scm_upsert sid pid conv row s)) = heap s"
  "conversation_history (snd (scm_upsert sid pid conv row s)) = conversation_history s"
  by (simp_all add: scm_upsert_def upsert_def log_msg_def split: upsert_outcome.splits)

lemma scm_upsert_Response:
  assumes "supabase s" "upsert_results s (n_upsert s) = Response d e"
  shows "fst (scm_upsert sid pid conv row s) = Returned d"
    and "d \<Longrightarrow> retry_queue (snd (scm_upsert sid pid conv row s)) = retry_queue s"
    and "\<not> d \<Longrightarrow> enqueued_for sid pid (heap s conv) (retry_queue s)
                    (retry_queue (snd (scm_upsert sid pid conv row s)))"
  using assms
  by (auto simp: scm_upsert_def upsert_def log_msg_def intro!: enqueued_forI)

lemma scm_upsert_Raises:
  assumes "supabase s" "upsert_results s (n_upsert s) = Raises ty msg"
  shows "fst (scm_upsert sid pid conv row s) = Returned (str_in ''duplicate key'' (py_lower msg))"
    and "str_in ''duplicate key'' (py_lower msg) \<Longrightarrow>
         retry_queue (snd (scm_upsert sid pid conv row s)) = retry_queue s"
    and "\<not> str_in ''duplicate key'' (py_lower msg) \<Longrightarrow>
         enqueued_for sid pid (heap s conv) (retry_queue s)
           (retry_queue (snd (scm_upsert sid pid conv row s)))"
  using assms
  by (auto simp: scm_upsert_def upsert_def log_msg_def intro!: enqueued_forI)

lemma scm_deferred:
  "is_speaking s \<Longrightarrow>
   store_conversation_message sid ''system'' conv s =
     (Returned False, snd (add_to_retry_queue sid ''system'' conv s))"
  by (simp add: store_conversation_message_def)

lemma scm_unhealthy:
  "\<not> (is_speaking s \<and> pid = ''system'') \<Longrightarrow> \<not> fst (check_supabase_health s) \<Longrightarrow>
   store_conversation_message sid pid conv s =
     (Returned False, snd (add_to_retry_queue sid pid conv
        (log_msg Error ''Supabase client not available, adding message to retry queue''
           (snd (check_supabase_health s)))))"
  by (auto simp: store_conversation_message_def split_def Let_def)

lemma scm_empty:
  "\<not> (is_speaking s \<and> pid = ''system'') \<Longrightarrow> fst (check_supabase_health s) \<Longrightarrow>
   is_empty_dict (heap s conv) \<Longrightarrow>
   store_conversation_message sid pid conv s =
     (Returned False, log_msg Error ''Message data is empty, skipping storage''
        (snd (check_supabase_health s)))"
  by (auto simp: store_conversation_message_def split_def Let_def)

lemma scm_unserializable:
  assumes "\<not> (is_speaking s \<and> pid = ''system'')" "fst (check_supabase_health s)"
    "\<not> is_empty_dict (heap s conv)" "\<not> content_serializable (heap s conv)"
  shows "store_conversation_message sid pid conv s =
     (Raised TypeError,
      snd (scm_insert_data sid pid conv (fst (scm_message_id conv (snd (check_supabase_health s))))
             (snd (scm_message_id conv (snd (check_supabase_health s))))))"
proof -
  let ?s1 = "snd (check_supabase_health s)"
  let ?s3 = "snd (scm_message_id conv ?s1)"
  have "\<not> content_serializable (heap ?s3 conv)"
    using assms(4) by (simp add: content_serializable_def)
  then have "fst (scm_insert_data sid pid conv (fst (scm_message_id conv ?s1)) ?s3) = Raised TypeError"
    by (rule scm_insert_data_Raised)
  then show ?thesis
    using assms(1-3) by (auto simp: store_conversation_message_def split_def Let_def)
qed

lemma scm_written:
  assumes "\<not> (is_speaking s \<and> pid = ''system'')" "fst (check_supabase_health s)"
    "\<not> is_empty_dict (heap s conv)" "content_serializable (heap s conv)"
  shows "\<exists>row t. store_conversation_message sid pid conv s = scm_upsert sid pid conv row t \<and>
           supabase t \<and> trace t = trace s @ health_events s \<and> retry_queue t = retry_queue s \<and>
           n_upsert t = n_upsert s \<and> upsert_results t = upsert_results s \<and>
           conversation_history t = conversation_history s \<and>
           role (heap t conv) = role (heap s conv) \<and> content (heap t conv) = content (heap s conv) \<and>
           timestamp (heap t conv) = timestamp (heap s conv) \<and>
           (\<forall>r. metadata (heap t r) = metadata (heap s r))"
proof -
  let ?s1 = "snd (check_supabase_health s)"
  let ?mid = "fst (scm_message_id conv ?s1)"
  let ?s3 = "snd (scm_message_id conv ?s1)"
  let ?t = "snd (scm_insert_data sid pid conv ?mid ?s3)"
  have "content_serializable (heap ?s3 conv)"
    using assms(4) by (simp add: content_serializable_def)
  then obtain row where row: "fst (scm_insert_data sid pid conv ?mid ?s3) = Returned row"
    using scm_insert_data_Returned by blast
  have a: "store_conversation_message sid pid conv s = scm_upsert sid pid conv row ?t"
    using assms(1-3) row by (auto simp: store_conversation_message_def split_def Let_def)
  have b: "supabase ?t" using assms(2) by (simp add: check_supabase_health_True)
  have c: "trace ?t = trace s @ health_events s" by (simp add: check_supabase_health_trace)
  show ?thesis
    apply (rule exI [of _ row])
    apply (rule exI [of _ ?t])
    using a b c by simp
qed

lemma new_events_append [simp]: "trace s' = trace s @ evs \<Longrightarrow> new_events s s' = evs"
  by (simp add: new_events_def)

text \<open>
  Claim C10. A single-message write for participant "system" made while the agent is
  speaking returns False at once: it makes no call to the outside (no health probe, no
  upsert), it leaves the messages as they are, and it enqueues the message: the queue
  gets, at its end, an item of this session and participant "system" whose reduced
  record has the role, content and timestamp of the message, with retry_count 0 (and
  the queue is cut to its newest 1000 items).
\<close>

theorem system_write_deferred_while_speaking:
  "is_speaking s \<Longrightarrow>
   fst (store_conversation_message sid ''system'' conv s) = Returned False \<and>
   new_events s (snd (store_conversation_message sid ''system'' conv s)) = [] \<and>
   n_select (snd (store_conversation_message sid ''system'' conv s)) = n_select s \<and>
   n_init (snd (store_conversation_message sid ''system'' conv s)) = n_init s \<and>
   n_upsert (snd (store_conversation_message sid ''system'' conv s)) = n_upsert s \<and>
   heap (snd (store_conversation_message sid ''system'' conv s)) = heap s \<and>
   retry_queue (snd (store_conversation_message sid ''system'' conv s)) =
     keep_newest MAX_RETRY_QUEUE_SIZE (retry_queue s @ [created_item s 0 (sid, ''system'', conv)]) \<and>
   enqueued_for sid ''system'' (heap s conv) (retry_queue s)
     (retry_queue (snd (store_conversation_message sid ''system'' conv s))) \<and>
   item_for sid ''system'' (heap s conv) (created_item s 0 (sid, ''system'', conv)) \<and>
   retry_count (created_item s 0 (sid, ''system'', conv)) = 0"
proof -
  assume sp: "is_speaking s"
  have e: "enqueued_for sid ''system'' (heap s conv) (retry_queue s)
     (retry_queue (snd (add_to_retry_queue sid ''system'' conv s)))"
    by (rule enqueued_forI) simp_all
  have i: "item_for sid ''system'' (heap s conv) (created_item s 0 (sid, ''system'', conv))"
    by (simp add: item_for_def created_item_def make_retry_item_def split: option.splits)
  show ?thesis
    using e i
    by (simp add: scm_deferred [OF sp] add_to_retry_queue_queue created_item_def
        make_retry_item_def)
qed

theorem system_write_deferred_witness:
  "is_speaking speaking_state \<and>
   fst (store_conversation_message ''session-1'' ''system'' 0 speaking_state) = Returned False \<and>
   trace (snd (store_conversation_message ''session-1'' ''system'' 0 speaking_state)) = [] \<and>
   retry_queue (snd (store_conversation_message ''session-1'' ''system'' 0 speaking_state)) =
     [\<lparr> retry_timestamp = ''2025-01-01T12:00:05'',
        item_session_id = ''session-1'',
        item_participant_id = ''system'',
        item_conversation =
          \<lparr> sm_role = ''user'', sm_content = PStr ''hello'',
            sm_timestamp = ''2025-01-01T10:00:00+00:00'', sm_message_id = ''u'' \<rparr>,
        item_raw_conversation = PStr ''hello'',
        item_message_count = 1,
        item_user_email = PStr '''',
        item_timestamp = ''2025-01-01T10:00:00+00:00'',
        item_email_sent = False,
        retry_count = 0 \<rparr>]"
proof -
  have sp: "is_speaking speaking_state"
    by (simp add: is_speaking_def speaking_state_def)
  have tr: "trace speaking_state = []" "retry_queue speaking_state = []"
    by (simp_all add: speaking_state_def example_state_def)
  have it: "created_item speaking_state 0 (''session-1'', ''system'', 0) =
     \<lparr> retry_timestamp = ''2025-01-01T12:00:05'',
        item_session_id = ''session-1'',
        item_participant_id = ''system'',
        item_conversation =
          \<lparr> sm_role = ''user'', sm_content = PStr ''hello'',
            sm_timestamp = ''2025-01-01T10:00:00+00:00'', sm_message_id = ''u'' \<rparr>,
        item_raw_conversation = PStr ''hello'',
        item_message_count = 1,
        item_user_email = PStr '''',
        item_timestamp = ''2025-01-01T10:00:00+00:00'',
        item_email_sent = False,
        retry_count = 0 \<rparr>"
    by (simp add: created_item_def make_retry_item_def speaking_state_def example_state_def
        example_message_def)
  have "fst (store_conversation_message ''session-1'' ''system'' 0 speaking_state) = Returned False"
    "new_events speaking_state
       (snd (store_conversation_message ''session-1'' ''system'' 0 speaking_state)) = []"
    "retry_queue (snd (store_conversation_message ''session-1'' ''system'' 0 speaking_state)) =
       keep_newest MAX_RETRY_QUEUE_SIZE
         (retry_queue speaking_state @ [created_item speaking_state 0 (''session-1'', ''system'', 0)])"
    using system_write_deferred_while_speaking [OF sp, of "''session-1''" 0] by blast+
  then show ?thesis
    using sp tr by (simp add: it new_events_def keep_newest_def MAX_RETRY_QUEUE_SIZE_def)
qed

lemma str_in_map: "str_in needle hay \<Longrightarrow> str_in (map f needle) (map f hay)"
  by (induction hay) (auto dest: map_mono_prefix [where f = f])

lemma lower_duplicate_key: "py_lower ''duplicate key'' = ''duplicate key''"
  by code_simp

lemma str_in_lower: "str_in ''duplicate key'' msg \<Longrightarrow> str_in ''duplicate key'' (py_lower msg)"
  using str_in_map [of "''duplicate key''" msg lower_char] lower_duplicate_key
  by (simp only: py_lower_def)

text \<open>
  Claim C4. Take a single-message write that gets as far as its upsert (not deferred,
  health probe passed, message not empty and serialisable at least in reduced form).
  If the upsert raises an exception whose message contains "duplicate key" (the code
  compares the lower-cased message, so any capitalisation counts), the write returns
  True and the retry queue is unchanged; on any other exception, and on a response
  without data, it returns False after enqueueing a retry item for the message.
\<close>

theorem duplicate_key_is_success:
  assumes "\<not> (is_speaking s \<and> pid = ''system'')" and "fst (check_supabase_health s)"
    and "\<not> is_empty_dict (heap s conv)" and "content_serializable (heap s conv)"
  shows "(upsert_results s (n_upsert s) = Raises ty msg \<longrightarrow>
           (if str_in ''duplicate key'' (py_lower msg)
            then fst (store_conversation_message sid pid conv s) = Returned True \<and>
                 retry_queue (snd (store_conversation_message sid pid conv s)) = retry_queue s
            else fst (store_conversation_message sid pid conv s) = Returned False \<and>
                 enqueued_for sid pid (heap s conv) (retry_queue s)
                   (retry_queue (snd (store_conversation_message sid pid conv s))))) \<and>
         (upsert_results s (n_upsert s) = Response False e \<longrightarrow>
            fst (store_conversation_message sid pid conv s) = Returned False \<and>
            enqueued_for sid pid (heap s conv) (retry_queue s)
              (retry_queue (snd (store_conversation_message sid pid conv s)))) \<and>
         (str_in ''duplicate key'' msg \<longrightarrow> str_in ''duplicate key'' (py_lower msg)) \<and>
         length (filter is_upsert (new_events s (snd (store_conversation_message sid pid conv s)))) = 1"
proof -
  obtain row t where w: "store_conversation_message sid pid conv s = scm_upsert sid pid conv row t"
    and t: "supabase t" "trace t = trace s @ health_events s" "retry_queue t = retry_queue s"
      "n_upsert t = n_upsert s" "upsert_results t = upsert_results s"
      "role (heap t conv) = role (heap s conv)" "content (heap t conv) = content (heap s conv)"
      "timestamp (heap t conv) = timestamp (heap s conv)"
    using scm_written [OF assms] by blast
  have m: "enqueued_for sid pid (heap t conv) q q' = enqueued_for sid pid (heap s conv) q q'" for q q'
    using t(6-8) by (simp add: enqueued_for_def item_for_def)
  have 1: "upsert_results s (n_upsert s) = Raises ty msg \<longrightarrow>
           (if str_in ''duplicate key'' (py_lower msg)
            then fst (store_conversation_message sid pid conv s) = Returned True \<and>
                 retry_queue (snd (store_conversation_message sid pid conv s)) = retry_queue s
            else fst (store_conversation_message sid pid conv s) = Returned False \<and>
                 enqueued_for sid pid (heap s conv) (retry_queue s)
                   (retry_queue (snd (store_conversation_message sid pid conv s))))"
    using scm_upsert_Raises [of t ty msg sid pid conv row] t(1,3,4,5) m by (simp add: w)
  have 2: "upsert_results s (n_upsert s) = Response False e \<longrightarrow>
            fst (store_conversation_message sid pid conv s) = Returned False \<and>
            enqueued_for sid pid (heap s conv) (retry_queue s)
              (retry_queue (snd (store_conversation_message sid pid conv s)))"
    using scm_upsert_Response [of t False e sid pid conv row] t(1,3,4,5) m by (simp add: w)
  have "trace (snd (store_conversation_message sid pid conv s)) =
          trace s @ (health_events s @ [Upsert [row]])"
    using scm_upsert_trace [OF t(1), of sid pid conv row] t(2) by (simp add: w)
  then have 3: "length (filter is_upsert (new_events s (snd (store_conversation_message sid pid conv s)))) = 1"
    by (simp add: health_events_probe)
  show ?thesis using 1 2 3 str_in_lower by blast
qed

lemma example_facts:
  "\<not> is_speaking example_state" "fst (check_supabase_health example_state)"
  "\<not> is_empty_dict (heap example_state r)" "content_serializable (heap example_state r)"
  by (simp_all add: example_state_def example_message_def is_speaking_def check_supabase_health_def
      is_empty_dict_def content_serializable_def)

lemma duplicate_message_matches:
  "str_in ''duplicate key'' (py_lower ''Duplicate key value violates unique constraint'')"
  by code_simp

lemma timeout_message_differs:
  "\<not> str_in ''duplicate key'' (py_lower ''network timeout'')"
  by code_simp

theorem duplicate_key_is_success_witness:
  "fst (store_conversation_message ''session-1'' ''user'' 0 duplicate_state) = Returned True \<and>
   retry_queue (snd (store_conversation_message ''session-1'' ''user'' 0 duplicate_state)) = [] \<and>
   fst (store_conversation_message ''session-1'' ''user'' 0 timeout_state) = Returned False \<and>
   length (retry_queue (snd (store_conversation_message ''session-1'' ''user'' 0 timeout_state))) = 1"
proof -
  have d: "\<not> (is_speaking duplicate_state \<and> ''user'' = ''system'')"
    "fst (check_supabase_health duplicate_state)"
    "\<not> is_empty_dict (heap duplicate_state 0)" "content_serializable (heap duplicate_state 0)"
    "upsert_results duplicate_state (n_upsert duplicate_state) =
       Raises ''APIError'' ''Duplicate key value violates unique constraint''"
    "retry_queue duplicate_state = []"
    by (simp_all add: duplicate_state_def example_state_def example_message_def is_speaking_def
        check_supabase_health_def is_empty_dict_def content_serializable_def)
  have t: "\<not> (is_speaking timeout_state \<and> ''user'' = ''system'')"
    "fst (check_supabase_health timeout_state)"
    "\<not> is_empty_dict (heap timeout_state 0)" "content_serializable (heap timeout_state 0)"
    "upsert_results timeout_state (n_upsert timeout_state) = Raises ''TimeoutError'' ''network timeout''"
    "retry_queue timeout_state = []"
    by (simp_all add: timeout_state_def example_state_def example_message_def is_speaking_def
        check_supabase_health_def is_empty_dict_def content_serializable_def)
  have "enqueued_for ''session-1'' ''user'' (heap timeout_state 0) []
          (retry_queue (snd (store_conversation_message ''session-1'' ''user'' 0 timeout_state)))
        \<and> fst (store_conversation_message ''session-1'' ''user'' 0 timeout_state) = Returned False"
    using duplicate_key_is_success [OF t(1-4), of "''TimeoutError''" "''network timeout''" "''session-1''"]
      t(5,6) timeout_message_differs by simp
  moreover have "length q' = 1" if "enqueued_for sid pid m [] q'" for sid pid m q'
  proof -
    from that have "q' = keep_newest MAX_RETRY_QUEUE_SIZE [last q']"
      by (simp add: enqueued_for_def)
    then have "length q' = length (keep_newest MAX_RETRY_QUEUE_SIZE [last q'])" by simp
    then show ?thesis by (simp add: keep_newest_def MAX_RETRY_QUEUE_SIZE_def)
  qed
  moreover have "fst (store_conversation_message ''session-1'' ''user'' 0 duplicate_state) = Returned True \<and>
     retry_queue (snd (store_conversation_message ''session-1'' ''user'' 0 duplicate_state)) = []"
    using duplicate_key_is_success [OF d(1-4), of "''APIError''"
        "''Duplicate key value violates unique constraint''" "''session-1''"]
      d(5,6) duplicate_message_matches by simp
  ultimately show ?thesis by blast
qed

lemma scm_cases:
  obtains (deferred) "is_speaking s" "pid = ''system''"
  | (unhealthy) "\<not> (is_speaking s \<and> pid = ''system'')" "\<not> fst (check_supabase_health s)"
  | (empty) "\<not> (is_speaking s \<and> pid = ''system'')" "fst (check_supabase_health s)"
      "is_empty_dict (heap s conv)"
  | (unserializable) "\<not> (is_speaking s \<and> pid = ''system'')" "fst (check_supabase_health s)"
      "\<not> is_empty_dict (heap s conv)" "\<not> content_serializable (heap s conv)"
  | (written) "\<not> (is_speaking s \<and> pid = ''system'')" "fst (check_supabase_health s)"
      "\<not> is_empty_dict (heap s conv)" "content_serializable (heap s conv)"
  by blast

lemma scm_frame:
  "conversation_history (snd (store_conversation_message sid pid conv s)) = conversation_history s \<and>
   metadata (heap (snd (store_conversation_message sid pid conv s)) r) = metadata (heap s r)"
proof (cases rule: scm_cases [where s = s and pid = pid and conv = conv])
  case deferred
  then show ?thesis by (simp add: scm_deferred)
next
  case unhealthy
  then show ?thesis by (simp add: scm_unhealthy log_msg_def)
next
  case empty
  then show ?thesis by (simp add: scm_empty log_msg_def)
next
  case unserializable
  then show ?thesis by (simp add: scm_unserializable)
next
  case written
  then obtain row t where w: "store_conversation_message sid pid conv s = scm_upsert sid pid conv row t"
    and t: "conversation_history t = conversation_history s"
      "\<forall>r. metadata (heap t r) = metadata (heap s r)"
    using scm_written [of s pid conv sid] by blast
  then show ?thesis by (simp add: w)
qed

lemma scm_upsert_result:
  assumes "supabase t"
  shows "(fst (scm_upsert sid pid conv row t) = Returned True \<and>
          retry_queue (snd (scm_upsert sid pid conv row t)) = retry_queue t) \<or>
         (fst (scm_upsert sid pid conv row t) = Returned False \<and>
          enqueued_for sid pid (heap t conv) (retry_queue t)
            (retry_queue (snd (scm_upsert sid pid conv row t))))"
proof (cases "upsert_results t (n_upsert t)")
  case (Response d e)
  then show ?thesis using scm_upsert_Response [OF assms, of d e sid pid conv row] by (cases d) auto
next
  case (Raises ty msg)
  then show ?thesis using scm_upsert_Raises [OF assms, of ty msg sid pid conv row]
    by (cases "str_in ''duplicate key'' (py_lower msg)") auto
qed

text \<open>
  Claim C1, as amended. A single-message write never changes the stored flag of any
  message, nor the log. When it returns True the retry queue is as before; when it
  returns False for a message that is not the empty dict, the write itself has
  enqueued a retry item for that message; an empty dict that gets past the gates is
  refused with False and nothing is enqueued.
\<close>

theorem single_write_keeps_stored_flags:
  "(\<forall>r. is_stored (heap (snd (store_conversation_message sid pid conv s)) r) = is_stored (heap s r)) \<and>
   conversation_history (snd (store_conversation_message sid pid conv s)) = conversation_history s \<and>
   (fst (store_conversation_message sid pid conv s) = Returned True \<longrightarrow>
      retry_queue (snd (store_conversation_message sid pid conv s)) = retry_queue s) \<and>
   (fst (store_conversation_message sid pid conv s) = Returned False \<and>
    \<not> is_empty_dict (heap s conv) \<longrightarrow>
      enqueued_for sid pid (heap s conv) (retry_queue s)
        (retry_queue (snd (store_conversation_message sid pid conv s)))) \<and>
   (\<not> (is_speaking s \<and> pid = ''system'') \<and> fst (check_supabase_health s) \<and>
    is_empty_dict (heap s conv) \<longrightarrow>
      fst (store_conversation_message sid pid conv s) = Returned False \<and>
      retry_queue (snd (store_conversation_message sid pid conv s)) = retry_queue s)"
proof -
  let ?r = "store_conversation_message sid pid conv s"
  have flags: "\<forall>r. is_stored (heap (snd ?r) r) = is_stored (heap s r)"
    using scm_frame [of sid pid conv s] by (simp add: is_stored_def)
  have queue: "(fst ?r = Returned True \<longrightarrow> retry_queue (snd ?r) = retry_queue s) \<and>
     (fst ?r = Returned False \<and> \<not> is_empty_dict (heap s conv) \<longrightarrow>
        enqueued_for sid pid (heap s conv) (retry_queue s) (retry_queue (snd ?r)))"
  proof (cases rule: scm_cases [where s = s and pid = pid and conv = conv])
    case deferred
    have "enqueued_for sid pid (heap s conv) (retry_queue s)
            (retry_queue (snd (add_to_retry_queue sid pid conv s)))"
      by (rule enqueued_forI) simp_all
    with deferred show ?thesis by (simp add: scm_deferred)
  next
    case unhealthy
    let ?t = "log_msg Error ''Supabase client not available, adding message to retry queue''
                (snd (check_supabase_health s))"
    have "enqueued_for sid pid (heap s conv) (retry_queue s)
            (retry_queue (snd (add_to_retry_queue sid pid conv ?t)))"
      by (rule enqueued_forI) (simp_all add: log_msg_def)
    with unhealthy show ?thesis by (simp add: scm_unhealthy)
  next
    case empty
    then show ?thesis by (simp add: scm_empty)
  next
    case unserializable
    then show ?thesis by (simp add: scm_unserializable)
  next
    case written
    then obtain row t where w: "?r = scm_upsert sid pid conv row t"
      and t: "supabase t" "retry_queue t = retry_queue s"
        "role (heap t conv) = role (heap s conv)" "content (heap t conv) = content (heap s conv)"
        "timestamp (heap t conv) = timestamp (heap s conv)"
      using scm_written [of s pid conv sid] by blast
    have m: "enqueued_for sid pid (heap t conv) q q' = enqueued_for sid pid (heap s conv) q q'" for q q'
      using t(3-5) by (simp add: enqueued_for_def item_for_def)
    have "(fst ?r = Returned True \<and> retry_queue (snd ?r) = retry_queue s) \<or>
          (fst ?r = Returned False \<and>
           enqueued_for sid pid (heap s conv) (retry_queue s) (retry_queue (snd ?r)))"
      using scm_upsert_result [OF t(1), of sid pid conv row] by (simp only: w t(2) m)
    then show ?thesis by (elim disjE conjE) simp_all
  qed
  have empty: "\<not> (is_speaking s \<and> pid = ''system'') \<and> fst (check_supabase_health s) \<and>
    is_empty_dict (heap s conv) \<longrightarrow> fst ?r = Returned False \<and> retry_queue (snd ?r) = retry_queue s"
    by (auto simp: scm_empty log_msg_def)
  show ?thesis using flags queue empty scm_frame [of sid pid conv s] by blast
qed

lemma example_write:
  "fst (store_conversation_message ''session-1'' ''user'' 0 example_state) = Returned True"
  by (simp add: store_conversation_message_def is_speaking_def check_supabase_health_def
      example_state_def example_message_def is_empty_dict_def scm_message_id_def new_uuid_def
      scm_insert_data_def serializable_message_def get_current_timestamp_def scm_upsert_def
      upsert_def Let_def split_def)

theorem single_write_keeps_stored_flags_witness:
  "fst (store_conversation_message ''session-1'' ''user'' 0 example_state) = Returned True \<and>
   retry_queue (snd (store_conversation_message ''session-1'' ''user'' 0 example_state)) = [] \<and>
   fst (store_conversation_message ''session-1'' ''user'' 0 timeout_state) = Returned False \<and>
   retry_queue (snd (store_conversation_message ''session-1'' ''user'' 0 timeout_state)) \<noteq> []"
proof -
  have f: "fst (store_conversation_message ''session-1'' ''user'' 0 timeout_state) = Returned False"
    by (simp add: store_conversation_message_def is_speaking_def check_supabase_health_def
      timeout_state_def example_state_def example_message_def is_empty_dict_def scm_message_id_def
      new_uuid_def scm_insert_data_def serializable_message_def get_current_timestamp_def
      scm_upsert_def upsert_def Let_def split_def timeout_message_differs)
  have e: "\<not> is_empty_dict (heap timeout_state 0)"
    by (simp add: timeout_state_def example_state_def example_message_def is_empty_dict_def)
  have q: "retry_queue example_state = []" by (simp add: example_state_def)
  have a: "retry_queue (snd (store_conversation_message ''session-1'' ''user'' 0 example_state)) = []"
    using single_write_keeps_stored_flags [of "''session-1''" "''user''" 0 example_state]
      example_write q by simp
  have "enqueued_for ''session-1'' ''user'' (heap timeout_state 0) (retry_queue timeout_state)
          (retry_queue (snd (store_conversation_message ''session-1'' ''user'' 0 timeout_state)))"
    using single_write_keeps_stored_flags [of "''session-1''" "''user''" 0 timeout_state] f e
    by blast
  then have b: "retry_queue (snd (store_conversation_message ''session-1'' ''user'' 0 timeout_state)) \<noteq> []"
    by (rule enqueued_for_grows)
  show ?thesis using example_write a f b by simp
qed

text \<open>
  The claim as stated fails: a successful single-message write returns with the log
  entry of the message still not marked as stored.
\<close>

theorem single_write_marks_stored_counterexample:
  "fst (store_conversation_message ''session-1'' ''user'' 0 example_state) = Returned True \<and>
   conversation_history (snd (store_conversation_message ''session-1'' ''user'' 0 example_state)) = [0] \<and>
   \<not> is_stored (heap (snd (store_conversation_message ''session-1'' ''user'' 0 example_state)) 0)"
proof -
  have "\<not> is_stored (heap example_state 0)"
    by (simp add: is_stored_def example_state_def example_message_def)
  moreover have "conversation_history example_state = [0]" by (simp add: example_state_def)
  ultimately show ?thesis
    using scm_frame [of "''session-1''" "''user''" 0 example_state]
    by (simp add: example_write is_stored_def)
qed

lemma upsert_supabase:
  "supabase s \<Longrightarrow>
   upsert rows s = (upsert_results s (n_upsert s),
                    s\<lparr>n_upsert := Suc (n_upsert s), trace := trace s @ [Upsert rows]\<rparr>)"
  by (simp add: upsert_def)

lemma mark_first_frame [simp]:
  "trace (mark_first row refs s) = trace s"
  "n_upsert (mark_first row refs s) = n_upsert s"
  "upsert_results (mark_first row refs s) = upsert_results s"
  "supabase (mark_first row refs s) = supabase s"
  "conversation_history (mark_first row refs s) = conversation_history s"
  "retry_queue (mark_first row refs s) = retry_queue s"
  "n_select (mark_first row refs s) = n_select s"
  "n_init (mark_first row refs s) = n_init s"
  "logs (mark_first row refs s) = logs s"
  by (induction refs) simp_all

lemma sfc_mark_batch_frame [simp]:
  "trace (sfc_mark_batch batch s) = trace s"
  "n_upsert (sfc_mark_batch batch s) = n_upsert s"
  "upsert_results (sfc_mark_batch batch s) = upsert_results s"
  "supabase (sfc_mark_batch batch s) = supabase s"
  "conversation_history (sfc_mark_batch batch s) = conversation_history s"
  "retry_queue (sfc_mark_batch batch s) = retry_queue s"
  "n_select (sfc_mark_batch batch s) = n_select s"
  "n_init (sfc_mark_batch batch s) = n_init s"
  by (induction batch arbitrary: s) simp_all

lemma sfc_fallback_frame [simp]:
  "upsert_results (sfc_fallback batch s) = upsert_results s"
  "supabase (sfc_fallback batch s) = supabase s"
  "conversation_history (sfc_fallback batch s) = conversation_history s"
  "retry_queue (sfc_fallback batch s) = retry_queue s"
  "n_select (sfc_fallback batch s) = n_select s"
  "n_init (sfc_fallback batch s) = n_init s"
  by (induction batch arbitrary: s)
    (simp_all add: upsert_def log_msg_def split: upsert_outcome.splits)

lemma sfc_fallback_trace:
  "supabase s \<Longrightarrow>
   trace (sfc_fallback batch s) = trace s @ map (\<lambda>row. Upsert [row]) batch \<and>
   n_upsert (sfc_fallback batch s) = n_upsert s + length batch"
proof (induction batch arbitrary: s)
  case Nil
  then show ?case by simp
next
  case (Cons row batch)
  let ?s1 = "s\<lparr>n_upsert := Suc (n_upsert s), trace := trace s @ [Upsert [row]]\<rparr>"
  show ?case
  proof (cases "upsert_results s (n_upsert s)")
    case (Response d e)
    let ?s2 = "if d then mark_first row (conversation_history ?s1) ?s1 else ?s1"
    have "supabase ?s2" using Cons.prems by simp
    from Cons.IH [OF this] show ?thesis
      using Cons.prems Response by (simp add: upsert_supabase)
  next
    case (Raises ty msg)
    let ?s2 = "log_msg Error ''Error in fallback single storage'' ?s1"
    have "supabase ?s2" using Cons.prems by (simp add: log_msg_def)
    from Cons.IH [OF this] show ?thesis
      using Cons.prems Raises by (simp add: upsert_supabase log_msg_def)
  qed
qed

declare chunks.simps [simp del]

declare sfc_batches.simps [simp del]

lemma sfc_batches_done:
  "n = 0 \<or> length xs \<le> i \<Longrightarrow> sfc_batches n i xs s = s"
  by (subst sfc_batches.simps) simp

lemma sfc_batches_step:
  "\<not> (n = 0 \<or> length xs \<le> i) \<Longrightarrow>
   sfc_batches n i xs s =
     sfc_batches n (i + n) xs (emit (Sleep_ms 500) (sfc_batch (take n (drop i xs)) s))"
  by (subst sfc_batches.simps) simp

lemma chunks_done: "n = 0 \<or> length xs \<le> i \<Longrightarrow> chunks n (drop i xs) = []"
  by (subst chunks.simps) auto

lemma chunks_Nil [simp]: "chunks n [] = []"
  by (simp add: chunks.simps)

lemma chunks_step:
  "0 < n \<Longrightarrow> xs \<noteq> [] \<Longrightarrow> chunks n xs = take n xs # chunks n (drop n xs)"
  by (subst chunks.simps) simp

lemma sfc_batch_frame [simp]:
  "upsert_results (sfc_batch batch s) = upsert_results s"
  "supabase (sfc_batch batch s) = supabase s"
  "conversation_history (sfc_batch batch s) = conversation_history s"
  "retry_queue (sfc_batch batch s) = retry_queue s"
  "n_select (sfc_batch batch s) = n_select s"
  "n_init (sfc_batch batch s) = n_init s"
  by (simp_all add: sfc_batch_def upsert_def log_msg_def split: upsert_outcome.splits)

lemma sfc_batch_trace:
  assumes "supabase s"
  shows "trace (emit (Sleep_ms 500) (sfc_batch batch s)) @ flush_events (upsert_results s) (n_upsert (sfc_batch batch s)) bs =
         trace s @ flush_events (upsert_results s) (n_upsert s) (batch # bs)"
proof (cases "upsert_results s (n_upsert s)")
  case (Response d e)
  then show ?thesis using assms
    by (simp add: sfc_batch_def upsert_supabase emit_def log_msg_def)
next
  case (Raises ty msg)
  let ?s1 = "log_msg Error ''Error during batch upsert''
               (s\<lparr>n_upsert := Suc (n_upsert s), trace := trace s @ [Upsert batch]\<rparr>)"
  have "supabase ?s1" using assms by (simp add: log_msg_def)
  from sfc_fallback_trace [OF this, of batch] show ?thesis
    using assms Raises by (simp add: sfc_batch_def upsert_supabase emit_def log_msg_def)
qed

lemma sfc_batches_trace:
  "supabase s \<Longrightarrow>
   trace (sfc_batches n i xs s) =
     trace s @ flush_events (upsert_results s) (n_upsert s) (chunks n (drop i xs))"
proof (induction n i xs s rule: sfc_batches.induct)
  case (1 n i xs s)
  show ?case
  proof (cases "n = 0 \<or> length xs \<le> i")
    case True
    then show ?thesis by (simp add: sfc_batches_done chunks_done)
  next
    case False
    let ?b = "take n (drop i xs)"
    let ?s' = "emit (Sleep_ms 500) (sfc_batch ?b s)"
    have sup: "supabase ?s'" using "1.prems" by (simp add: emit_def)
    have ch: "chunks n (drop i xs) = ?b # chunks n (drop (i + n) xs)"
      using False by (simp add: chunks_step add.commute)
    have "trace (sfc_batches n i xs s) = trace (sfc_batches n (i + n) xs ?s')"
      using False by (simp add: sfc_batches_step)
    also have "\<dots> = trace ?s' @ flush_events (upsert_results ?s') (n_upsert ?s') (chunks n (drop (i + n) xs))"
      using "1.IH" [OF False sup] .
    also have "\<dots> = trace s @ flush_events (upsert_results s) (n_upsert s) (?b # chunks n (drop (i + n) xs))"
      using sfc_batch_trace [OF "1.prems", of ?b "chunks n (drop (i + n) xs)"]
      by (simp add: emit_def)
    finally show ?thesis by (simp add: ch)
  qed
qed

lemma sfc_batches_frame:
  "conversation_history (sfc_batches n i xs s) = conversation_history s \<and>
   retry_queue (sfc_batches n i xs s) = retry_queue s \<and>
   n_select (sfc_batches n i xs s) = n_select s \<and>
   n_init (sfc_batches n i xs s) = n_init s \<and>
   supabase (sfc_batches n i xs s) = supabase s"
proof (induction n i xs s rule: sfc_batches.induct)
  case (1 n i xs s)
  show ?case
  proof (cases "n = 0 \<or> length xs \<le> i")
    case True
    then show ?thesis by (simp add: sfc_batches_done)
  next
    case False
    have "sfc_batches n i xs s =
          sfc_batches n (i + n) xs (emit (Sleep_ms 500) (sfc_batch (take n (drop i xs)) s))"
      using False by (rule sfc_batches_step)
    then show ?thesis using "1.IH" [OF False] by (simp add: emit_def)
  qed
qed

lemma sfc_insert_data_frame [simp]:
  "heap (snd (sfc_insert_data sid r s)) = heap s"
  "trace (snd (sfc_insert_data sid r s)) = trace s"
  "n_upsert (snd (sfc_insert_data sid r s)) = n_upsert s"
  "upsert_results (snd (sfc_insert_data sid r s)) = upsert_results s"
  "supabase (snd (sfc_insert_data sid r s)) = supabase s"
  "conversation_history (snd (sfc_insert_data sid r s)) = conversation_history s"
  "retry_queue (snd (sfc_insert_data sid r s)) = retry_queue s"
  "n_select (snd (sfc_insert_data sid r s)) = n_select s"
  "n_init (snd (sfc_insert_data sid r s)) = n_init s"
  by (simp_all add: sfc_insert_data_def get_current_timestamp_def log_msg_def Let_def split_def)

lemma forget_id_simps [simp]:
  "is_stored (forget_id m) = is_stored m"
  "content_serializable (forget_id m) = content_serializable m"
  "serializable_message (forget_id m) = serializable_message m"
  "row_matches row (forget_id m) = row_matches row m"
  "forget_id (m\<lparr>message_id := x\<rparr>) = forget_id m"
  "role (forget_id m) = role m" "content (forget_id m) = content m"
  "timestamp (forget_id m) = timestamp m" "participant_id (forget_id m) = participant_id m"
  "metadata (forget_id m) = metadata m"
  by (simp_all add: forget_id_def is_stored_def content_serializable_def serializable_message_def
      row_matches_def)

lemma forget_id_cong:
  assumes "forget_id m' = forget_id m"
  shows "is_stored m' = is_stored m" "content_serializable m' = content_serializable m"
    "serializable_message m' = serializable_message m" "row_matches row m' = row_matches row m"
    "row_for sid m' row = row_for sid m row"
proof -
  show "is_stored m' = is_stored m" using forget_id_simps(1) [of m'] assms by simp
  show "content_serializable m' = content_serializable m"
    using forget_id_simps(2) [of m'] assms by simp
  show ser: "serializable_message m' = serializable_message m"
    using forget_id_simps(3) [of m'] assms by simp
  show "row_matches row m' = row_matches row m"
    using forget_id_simps(4) [of row m'] assms by simp
  have "role m' = role m" "content m' = content m" "timestamp m' = timestamp m"
    "participant_id m' = participant_id m"
    using forget_id_simps(6-9) [of m'] assms by simp_all
  then show "row_for sid m' row = row_for sid m row"
    using ser assms by (simp add: row_for_def cong: option.case_cong json.case_cong)
qed

text \<open>The state after the round of the collecting loop for an unstored message.\<close>

lemma sfc_collect_Cons:
  "sfc_collect sid (r # rs) acc s =
     (if is_stored (heap s r) then sfc_collect sid rs acc s
      else
        let s1 = (if message_id (heap s r) = None
                  then (snd (new_uuid s))\<lparr>heap := (heap s)(r := (heap s r)\<lparr>message_id := Some (fst (new_uuid s))\<rparr>)\<rparr>
                  else s)
        in sfc_collect sid rs
             (acc @ (case fst (sfc_insert_data sid r s1) of Some x \<Rightarrow> [x] | None \<Rightarrow> []))
             (snd (sfc_insert_data sid r s1)))"
  by (simp add: split_def Let_def new_uuid_def)

lemma sfc_collect_frame:
  "trace (snd (sfc_collect sid refs acc s)) = trace s \<and>
   n_upsert (snd (sfc_collect sid refs acc s)) = n_upsert s \<and>
   upsert_results (snd (sfc_collect sid refs acc s)) = upsert_results s \<and>
   supabase (snd (sfc_collect sid refs acc s)) = supabase s \<and>
   conversation_history (snd (sfc_collect sid refs acc s)) = conversation_history s \<and>
   retry_queue (snd (sfc_collect sid refs acc s)) = retry_queue s \<and>
   n_select (snd (sfc_collect sid refs acc s)) = n_select s \<and>
   n_init (snd (sfc_collect sid refs acc s)) = n_init s \<and>
   (\<forall>x. forget_id (heap (snd (sfc_collect sid refs acc s)) x) = forget_id (heap s x))"
proof (induction refs arbitrary: acc s)
  case Nil
  then show ?case by simp
next
  case (Cons r rs)
  show ?case
    unfolding sfc_collect_Cons
    by (simp add: Cons.IH Let_def new_uuid_def del: sfc_collect.simps)
qed

lemma sfc_insert_data_full:
  "serializable_message (heap s r) \<Longrightarrow>
   fst (sfc_insert_data sid r s) =
     Some (full_insert_data sid
       (case participant_id (heap s r) of
          Some p \<Rightarrow> p
        | None \<Rightarrow> (case role (heap s r) of Some x \<Rightarrow> x | None \<Rightarrow> ''unknown''))
       (heap s r) (utc_now s (n_utc s)))"
  by (simp add: sfc_insert_data_def get_current_timestamp_def Let_def)

lemma sfc_insert_data_safe:
  "\<not> serializable_message (heap s r) \<Longrightarrow> content_serializable (heap s r) \<Longrightarrow>
   fst (sfc_insert_data sid r s) =
     Some (safe_insert_data sid
       (case participant_id (heap s r) of
          Some p \<Rightarrow> p
        | None \<Rightarrow> (case role (heap s r) of Some x \<Rightarrow> x | None \<Rightarrow> ''unknown''))
       (make_safe_message (heap s r) (utc_now s (n_utc s))
          (case message_id (heap s r) of Some i \<Rightarrow> i | None \<Rightarrow> [])))"
  by (simp add: sfc_insert_data_def get_current_timestamp_def log_msg_def Let_def
      content_serializable_def make_safe_message_def split: option.splits)

lemma row_for_full:
  "serializable_message m \<Longrightarrow> message_id m \<noteq> None \<Longrightarrow>
   row_for sid m (full_insert_data sid
     (case participant_id m of
        Some p \<Rightarrow> p
      | None \<Rightarrow> (case role m of Some x \<Rightarrow> x | None \<Rightarrow> ''unknown'')) m now)"
  by (simp add: row_for_def full_insert_data_def split: option.splits)

lemma row_for_safe:
  "\<not> serializable_message m \<Longrightarrow>
   row_for sid m (safe_insert_data sid
     (case participant_id m of
        Some p \<Rightarrow> p
      | None \<Rightarrow> (case role m of Some x \<Rightarrow> x | None \<Rightarrow> ''unknown''))
     (make_safe_message m now mid))"
  by (simp add: row_for_def safe_insert_data_def make_safe_message_def split: option.splits)

lemma sfc_insert_data_row:
  assumes "content_serializable (heap s r)" "message_id (heap s r) \<noteq> None"
  shows "\<exists>row. fst (sfc_insert_data sid r s) = Some row \<and> row_for sid (heap s r) row"
proof (cases "serializable_message (heap s r)")
  case True
  then show ?thesis using assms(2) by (simp add: sfc_insert_data_full row_for_full)
next
  case False
  then show ?thesis using assms(1) by (simp add: sfc_insert_data_safe row_for_safe)
qed

lemma sfc_insert_data_None:
  "\<not> content_serializable (heap s r) \<Longrightarrow> fst (sfc_insert_data sid r s) = None"
  using serializable_message_content [of "heap s r"]
  by (auto simp: sfc_insert_data_def get_current_timestamp_def log_msg_def Let_def
      content_serializable_def make_safe_message_def)

lemma sfc_collect_rows:
  "\<exists>rows. fst (sfc_collect sid refs acc s) = acc @ rows \<and>
      list_all2 (\<lambda>row r. row_for sid (heap s r) row) rows
        (filter (\<lambda>r. \<not> is_stored (heap s r) \<and> content_serializable (heap s r)) refs)"
proof (induction refs arbitrary: acc s)
  case Nil
  then show ?case by simp
next
  case (Cons r rs)
  show ?case
  proof (cases "is_stored (heap s r)")
    case True
    then show ?thesis using Cons.IH [of acc s] by simp
  next
    case False
    define s1 where "s1 = (if message_id (heap s r) = None
        then (snd (new_uuid s))\<lparr>heap := (heap s)(r := (heap s r)\<lparr>message_id := Some (fst (new_uuid s))\<rparr>)\<rparr>
        else s)"
    define s2 where "s2 = snd (sfc_insert_data sid r s1)"
    define new where "new = (case fst (sfc_insert_data sid r s1) of Some x \<Rightarrow> [x] | None \<Rightarrow> [])"
    have step: "sfc_collect sid (r # rs) acc s = sfc_collect sid rs (acc @ new) s2"
      unfolding sfc_collect_Cons using False by (simp add: s1_def s2_def new_def Let_def)
    have fid1: "forget_id (heap s1 x) = forget_id (heap s x)" for x
      by (simp add: s1_def new_uuid_def)
    have fid: "forget_id (heap s2 x) = forget_id (heap s x)" for x
      by (simp add: s2_def fid1)
    have mid: "message_id (heap s1 r) \<noteq> None" by (simp add: s1_def new_uuid_def)
    obtain rows where rows: "fst (sfc_collect sid rs (acc @ new) s2) = (acc @ new) @ rows"
      "list_all2 (\<lambda>row r. row_for sid (heap s2 r) row) rows
        (filter (\<lambda>r. \<not> is_stored (heap s2 r) \<and> content_serializable (heap s2 r)) rs)"
      using Cons.IH [of "acc @ new" s2] by blast
    have rows': "list_all2 (\<lambda>row r. row_for sid (heap s r) row) rows
        (filter (\<lambda>r. \<not> is_stored (heap s r) \<and> content_serializable (heap s r)) rs)"
      using rows(2) forget_id_cong [OF fid] by simp
    show ?thesis
    proof (cases "content_serializable (heap s r)")
      case True
      then have "content_serializable (heap s1 r)" using forget_id_cong(2) [OF fid1] by simp
      then obtain row where row: "fst (sfc_insert_data sid r s1) = Some row" "row_for sid (heap s1 r) row"
        using sfc_insert_data_row [OF _ mid] by blast
      then have "row_for sid (heap s r) row" using forget_id_cong(5) [OF fid1] by simp
      then show ?thesis
        using rows(1) rows' row(1) True False
        by (simp add: step new_def del: sfc_collect.simps)
    next
      case c: False
      then have "\<not> content_serializable (heap s1 r)" using forget_id_cong(2) [OF fid1] by simp
      then have "new = []" by (simp add: new_def sfc_insert_data_None)
      then show ?thesis
        using rows(1) rows' c
        by (simp add: step del: sfc_collect.simps)
    qed
  qed
qed

lemma first_match_Cons:
  "first_match h (r # rs) row = (if row_matches row (h r) then Some r else first_match h rs row)"
  by (simp add: first_match_def)

lemma mark_first_heap: "heap (mark_first row refs s) = mark_heap refs (heap s) row"
proof (induction refs)
  case Nil
  then show ?case by (simp add: mark_heap_def first_match_def)
next
  case (Cons r rs)
  then show ?case
    by (simp add: mark_heap_def first_match_Cons row_matches_def)
qed

lemma sfc_mark_batch_heap:
  "heap (sfc_mark_batch batch s) = foldl (mark_heap (conversation_history s)) (heap s) batch"
  by (induction batch arbitrary: s) (simp_all add: mark_first_heap)

lemma sfc_fallback_heap:
  "supabase s \<Longrightarrow>
   heap (sfc_fallback batch s) =
     foldl (mark_heap (conversation_history s)) (heap s)
       (written_singly (upsert_results s) (n_upsert s) batch)"
proof (induction batch arbitrary: s)
  case Nil
  then show ?case by simp
next
  case (Cons row batch)
  let ?s1 = "s\<lparr>n_upsert := Suc (n_upsert s), trace := trace s @ [Upsert [row]]\<rparr>"
  show ?case
  proof (cases "upsert_results s (n_upsert s)")
    case (Response d e)
    let ?s2 = "if d then mark_first row (conversation_history ?s1) ?s1 else ?s1"
    have "supabase ?s2" using Cons.prems by simp
    from Cons.IH [OF this] show ?thesis
      using Cons.prems Response by (simp add: upsert_supabase mark_first_heap)
  next
    case (Raises ty msg)
    let ?s2 = "log_msg Error ''Error in fallback single storage'' ?s1"
    have "supabase ?s2" using Cons.prems by (simp add: log_msg_def)
    from Cons.IH [OF this] show ?thesis
      using Cons.prems Raises by (simp add: upsert_supabase log_msg_def)
  qed
qed

lemma sfc_batch_heap:
  assumes "supabase s"
  shows "foldl (mark_heap (conversation_history s)) (heap (emit (Sleep_ms 500) (sfc_batch batch s)))
           (written_rows (upsert_results s) (n_upsert (sfc_batch batch s)) bs) =
         foldl (mark_heap (conversation_history s)) (heap s)
           (written_rows (upsert_results s) (n_upsert s) (batch # bs))"
proof (cases "upsert_results s (n_upsert s)")
  case (Response d e)
  then show ?thesis using assms
    by (simp add: sfc_batch_def upsert_supabase emit_def log_msg_def sfc_mark_batch_heap)
next
  case (Raises ty msg)
  let ?s1 = "log_msg Error ''Error during batch upsert''
               (s\<lparr>n_upsert := Suc (n_upsert s), trace := trace s @ [Upsert batch]\<rparr>)"
  have "supabase ?s1" using assms by (simp add: log_msg_def)
  from sfc_fallback_heap [OF this, of batch] sfc_fallback_trace [OF this, of batch]
  show ?thesis
    using assms Raises by (simp add: sfc_batch_def upsert_supabase emit_def log_msg_def)
qed

lemma sfc_batches_heap:
  "supabase s \<Longrightarrow>
   heap (sfc_batches n i xs s) =
     foldl (mark_heap (conversation_history s)) (heap s)
       (written_rows (upsert_results s) (n_upsert s) (chunks n (drop i xs)))"
proof (induction n i xs s rule: sfc_batches.induct)
  case (1 n i xs s)
  show ?case
  proof (cases "n = 0 \<or> length xs \<le> i")
    case True
    then show ?thesis by (simp add: sfc_batches_done chunks_done)
  next
    case False
    let ?b = "take n (drop i xs)"
    let ?s' = "emit (Sleep_ms 500) (sfc_batch ?b s)"
    have sup: "supabase ?s'" using "1.prems" by (simp add: emit_def)
    have ch: "chunks n (drop i xs) = ?b # chunks n (drop (i + n) xs)"
      using False by (simp add: chunks_step add.commute)
    have "heap (sfc_batches n i xs s) = heap (sfc_batches n (i + n) xs ?s')"
      using False by (simp add: sfc_batches_step)
    also have "\<dots> = foldl (mark_heap (conversation_history ?s')) (heap ?s')
        (written_rows (upsert_results ?s') (n_upsert ?s') (chunks n (drop (i + n) xs)))"
      using "1.IH" [OF False sup] .
    also have "\<dots> = foldl (mark_heap (conversation_history s)) (heap s)
        (written_rows (upsert_results s) (n_upsert s) (?b # chunks n (drop (i + n) xs)))"
      using sfc_batch_heap [OF "1.prems", of ?b "chunks n (drop (i + n) xs)"]
      by (simp add: emit_def)
    finally show ?thesis by (simp add: ch)
  qed
qed

lemma map_of_dict_set: "map_of (dict_set k v kvs) k = Some v"
  by (induction kvs) auto

lemma set_stored_simps [simp]:
  "is_stored (set_stored m)" "row_matches row (set_stored m) = row_matches row m"
  by (simp_all add: is_stored_def set_stored_def map_of_dict_set row_matches_def)

lemma first_match_Some: "first_match h refs row = Some r \<Longrightarrow> row_matches row (h r)"
  by (auto simp: first_match_def find_Some_iff)

lemma row_matches_mark_heap:
  "row_matches row (mark_heap refs h row' r) = row_matches row (h r)"
  by (simp add: mark_heap_def split: option.splits)

lemma first_match_cong:
  "(\<And>r. row_matches row (h' r) = row_matches row (h r)) \<Longrightarrow>
   first_match h' refs row = first_match h refs row"
  by (induction refs) (simp_all add: first_match_def)

lemma first_match_mark_heap:
  "first_match (mark_heap refs h row') refs' row = first_match h refs' row"
  by (rule first_match_cong) (rule row_matches_mark_heap)

lemma is_stored_mark_heap:
  "is_stored (mark_heap refs h row r) = (is_stored (h r) \<or> first_match h refs row = Some r)"
  by (auto simp: mark_heap_def split: option.splits)

lemma is_stored_foldl_mark_heap:
  "is_stored (foldl (mark_heap refs) h rows r) =
     (is_stored (h r) \<or> Some r \<in> set (map (first_match h refs) rows))"
proof (induction rows arbitrary: h)
  case Nil
  then show ?case by simp
next
  case (Cons row rows)
  have "map (first_match (mark_heap refs h row) refs) rows = map (first_match h refs) rows"
    by (simp add: first_match_mark_heap)
  then show ?case
    using Cons.IH [of "mark_heap refs h row"] by (auto simp: is_stored_mark_heap)
qed

lemma concat_chunks: "0 < n \<Longrightarrow> concat (chunks n xs) = xs"
proof (induction n xs rule: chunks.induct)
  case (1 n xs)
  show ?case
  proof (cases "xs = []")
    case True
    then show ?thesis by simp
  next
    case False
    then show ?thesis using 1 by (simp add: chunks_step)
  qed
qed

lemma chunks_bounds: "list_all (\<lambda>b. b \<noteq> [] \<and> length b \<le> n) (chunks n xs)"
proof (induction n xs rule: chunks.induct)
  case (1 n xs)
  show ?case
  proof (cases "n = 0 \<or> xs = []")
    case True
    then show ?thesis by (subst chunks.simps) simp
  next
    case False
    then show ?thesis using 1 by (simp add: chunks_step)
  qed
qed

lemma chunks_12: "length xs = 12 \<Longrightarrow> chunks 10 xs = [take 10 xs, drop 10 xs]"
proof -
  assume len: "length xs = 12"
  then have a: "xs \<noteq> []" "drop 10 xs \<noteq> []" by auto
  have "chunks 10 (drop 10 (drop 10 xs)) = []" using len by simp
  then show ?thesis using a len by (simp add: chunks_step [of 10 xs] chunks_step [of 10 "drop 10 xs"])
qed

lemma flush_events_no_probe: "filter is_probe (flush_events out k bs) = []"
proof (induction bs arbitrary: k)
  case Nil
  then show ?case by simp
next
  case (Cons b bs)
  have "filter is_probe (map (\<lambda>row. Upsert [row]) b) = []" by (induction b) simp_all
  then show ?case using Cons.IH by (simp split: upsert_outcome.splits)
qed

lemma store_full_conversation_runs:
  assumes "supabase s" "session_id s = Some sid" "sid \<noteq> []"
    "list_ex (\<lambda>r. \<not> is_stored (heap s r)) (conversation_history s)"
  shows "store_full_conversation s =
           sfc_batches 10 0 (sfc_rows sid s) (snd (sfc_collect sid (conversation_history s) [] s))"
proof -
  have "filter (\<lambda>r. \<not> is_stored (heap s r)) (conversation_history s) \<noteq> []"
    using assms(4) by (simp add: list_ex_iff filter_empty_conv)
  moreover from this have "conversation_history s \<noteq> []" by auto
  ultimately show ?thesis
    using assms(1-3) by (simp add: store_full_conversation_def sfc_rows_def split_def Let_def)
qed

lemma store_full_conversation_trace:
  assumes "supabase s" "session_id s = Some sid" "sid \<noteq> []"
    "list_ex (\<lambda>r. \<not> is_stored (heap s r)) (conversation_history s)"
  shows "trace (store_full_conversation s) =
           trace s @ flush_events (upsert_results s) (n_upsert s) (chunks 10 (sfc_rows sid s))"
proof -
  let ?s1 = "snd (sfc_collect sid (conversation_history s) [] s)"
  have f: "trace ?s1 = trace s" "n_upsert ?s1 = n_upsert s" "upsert_results ?s1 = upsert_results s"
    "supabase ?s1"
    using sfc_collect_frame [of sid "conversation_history s" "[]" s] assms(1) by simp_all
  show ?thesis
    using sfc_batches_trace [OF f(4), of 10 0 "sfc_rows sid s"] f(1-3)
    by (simp add: store_full_conversation_runs [OF assms])
qed

lemma store_full_conversation_stored:
  assumes "supabase s" "session_id s = Some sid" "sid \<noteq> []"
    "list_ex (\<lambda>r. \<not> is_stored (heap s r)) (conversation_history s)"
  shows "is_stored (heap (store_full_conversation s) r) =
           (is_stored (heap s r) \<or>
            Some r \<in> set (map (first_match (heap s) (conversation_history s))
                            (written_rows (upsert_results s) (n_upsert s)
                               (chunks 10 (sfc_rows sid s)))))"
proof -
  let ?s1 = "snd (sfc_collect sid (conversation_history s) [] s)"
  have f: "conversation_history ?s1 = conversation_history s" "n_upsert ?s1 = n_upsert s"
    "upsert_results ?s1 = upsert_results s" "supabase ?s1"
    and fid: "\<And>x. forget_id (heap ?s1 x) = forget_id (heap s x)"
    using sfc_collect_frame [of sid "conversation_history s" "[]" s] assms(1) by simp_all
  have st: "is_stored (heap ?s1 r) = is_stored (heap s r)"
    using forget_id_cong(1) [OF fid] .
  have fm: "first_match (heap ?s1) refs row = first_match (heap s) refs row" for refs row
    by (rule first_match_cong) (rule forget_id_cong(4) [OF fid])
  have "heap (store_full_conversation s) =
          foldl (mark_heap (conversation_history s)) (heap ?s1)
            (written_rows (upsert_results s) (n_upsert s) (chunks 10 (sfc_rows sid s)))"
    using sfc_batches_heap [OF f(4), of 10 0 "sfc_rows sid s"] f(1-3)
    by (simp add: store_full_conversation_runs [OF assms])
  then show ?thesis
    by (simp add: is_stored_foldl_mark_heap st fm cong: map_cong)
qed

lemma store_full_conversation_rows:
  "list_all2 (\<lambda>row r. row_for sid (heap s r) row) (sfc_rows sid s)
     (filter (\<lambda>r. \<not> is_stored (heap s r) \<and> content_serializable (heap s r)) (conversation_history s))"
  using sfc_collect_rows [of sid "conversation_history s" "[]" s] by (auto simp: sfc_rows_def)

lemma store_full_conversation_no_probe:
  "filter is_probe (new_events s (store_full_conversation s)) = [] \<and>
   n_select (store_full_conversation s) = n_select s \<and>
   n_init (store_full_conversation s) = n_init s"
proof (cases "supabase s \<and> (\<exists>sid. session_id s = Some sid \<and> sid \<noteq> []) \<and>
    list_ex (\<lambda>r. \<not> is_stored (heap s r)) (conversation_history s)")
  case True
  then obtain sid where h: "supabase s" "session_id s = Some sid" "sid \<noteq> []"
    "list_ex (\<lambda>r. \<not> is_stored (heap s r)) (conversation_history s)" by blast
  let ?s1 = "snd (sfc_collect sid (conversation_history s) [] s)"
  have f: "n_select ?s1 = n_select s" "n_init ?s1 = n_init s"
    using sfc_collect_frame [of sid "conversation_history s" "[]" s] by simp_all
  have "new_events s (store_full_conversation s) =
          flush_events (upsert_results s) (n_upsert s) (chunks 10 (sfc_rows sid s))"
    using store_full_conversation_trace [OF h] by (rule new_events_append)
  then have a: "filter is_probe (new_events s (store_full_conversation s)) = []"
    by (simp add: flush_events_no_probe)
  have "n_select (store_full_conversation s) = n_select s \<and>
        n_init (store_full_conversation s) = n_init s"
    using sfc_batches_frame [of 10 0 "sfc_rows sid s" ?s1] f
    by (simp add: store_full_conversation_runs [OF h])
  with a show ?thesis by simp
next
  case False
  have e: "\<not> list_ex (\<lambda>r. \<not> is_stored (heap s r)) (conversation_history s) \<Longrightarrow>
           filter (\<lambda>r. \<not> is_stored (heap s r)) (conversation_history s) = []"
    by (simp add: list_ex_iff filter_empty_conv)
  have "trace (store_full_conversation s) = trace s \<and>
        n_select (store_full_conversation s) = n_select s \<and>
        n_init (store_full_conversation s) = n_init s"
    using False e
    by (auto simp: store_full_conversation_def log_msg_def split: option.splits)
  then show ?thesis by (simp add: new_events_def)
qed

lemma chunks_two:
  "10 < length xs \<Longrightarrow> length xs \<le> 20 \<Longrightarrow> chunks 10 xs = [take 10 xs, drop 10 xs]"
proof -
  assume len: "10 < length xs" "length xs \<le> 20"
  then have a: "xs \<noteq> []" "drop 10 xs \<noteq> []" by auto
  have "chunks 10 (drop 10 (drop 10 xs)) = []" using len by simp
  then show ?thesis
    using a len by (simp add: chunks_step [of 10 xs] chunks_step [of 10 "drop 10 xs"])
qed

text \<open>
  Claim C5, as amended. A flush that finds the client, the session id and an unstored
  message builds one row per unstored message of the log, in log order, leaving out
  only a message whose content cannot be serialised; it cuts the rows into consecutive
  groups of at most 10 and upserts each group, sleeping 0.5 s after each. When the
  upsert of a group raises, the members of the group are upserted one at a time; a
  group answered without data is only logged. Every row written (in a group answered
  with data, or alone and answered with data) marks as stored the first log entry whose
  timestamp is the row's timestamp and whose role is the row's participant_id, and no
  other entry changes its flag. With 12 rows the groups are the first 10 and the last
  2, and when the second group's upsert raises it is followed by 2 single-row upserts.
\<close>

theorem full_flush_in_batches:
  assumes "supabase s" and "session_id s = Some sid" and "sid \<noteq> []"
    and "list_ex (\<lambda>r. \<not> is_stored (heap s r)) (conversation_history s)"
  shows "list_all2 (\<lambda>row r. row_for sid (heap s r) row) (sfc_rows sid s)
           (filter (\<lambda>r. \<not> is_stored (heap s r) \<and> content_serializable (heap s r))
              (conversation_history s)) \<and>
         concat (chunks 10 (sfc_rows sid s)) = sfc_rows sid s \<and>
         list_all (\<lambda>b. b \<noteq> [] \<and> length b \<le> 10) (chunks 10 (sfc_rows sid s)) \<and>
         new_events s (store_full_conversation s) =
           flush_events (upsert_results s) (n_upsert s) (chunks 10 (sfc_rows sid s)) \<and>
         (\<forall>r. is_stored (heap (store_full_conversation s) r) =
               (is_stored (heap s r) \<or>
                Some r \<in> set (map (first_match (heap s) (conversation_history s))
                                (written_rows (upsert_results s) (n_upsert s)
                                   (chunks 10 (sfc_rows sid s)))))) \<and>
         (length (sfc_rows sid s) = 12 \<longrightarrow>
            chunks 10 (sfc_rows sid s) = [take 10 (sfc_rows sid s), drop 10 (sfc_rows sid s)] \<and>
            length (take 10 (sfc_rows sid s)) = 10 \<and> length (drop 10 (sfc_rows sid s)) = 2 \<and>
            (\<forall>d e ty msg.
               upsert_results s (n_upsert s) = Response d e \<and>
               upsert_results s (Suc (n_upsert s)) = Raises ty msg \<longrightarrow>
               new_events s (store_full_conversation s) =
                 [Upsert (take 10 (sfc_rows sid s)), Sleep_ms 500,
                  Upsert (drop 10 (sfc_rows sid s)),
                  Upsert [sfc_rows sid s ! 10], Upsert [sfc_rows sid s ! 11], Sleep_ms 500]))"
proof -
  let ?R = "sfc_rows sid s"
  have ev: "new_events s (store_full_conversation s) =
              flush_events (upsert_results s) (n_upsert s) (chunks 10 ?R)"
    using store_full_conversation_trace [OF assms] by (rule new_events_append)
  have twelve: "chunks 10 ?R = [take 10 ?R, drop 10 ?R] \<and>
      length (take 10 ?R) = 10 \<and> length (drop 10 ?R) = 2 \<and>
      (\<forall>d e ty msg.
         upsert_results s (n_upsert s) = Response d e \<and>
         upsert_results s (Suc (n_upsert s)) = Raises ty msg \<longrightarrow>
         new_events s (store_full_conversation s) =
           [Upsert (take 10 ?R), Sleep_ms 500, Upsert (drop 10 ?R),
            Upsert [?R ! 10], Upsert [?R ! 11], Sleep_ms 500])"
    if len: "length ?R = 12"
  proof -
    have ch: "chunks 10 ?R = [take 10 ?R, drop 10 ?R]" using len by (simp add: chunks_two)
    have "drop 10 ?R = [?R ! 10, ?R ! 11]"
    proof -
      have "drop 10 ?R = ?R ! 10 # drop 11 ?R" using len Cons_nth_drop_Suc [of 10 ?R] by simp
      moreover have "drop 11 ?R = ?R ! 11 # drop 12 ?R" using len Cons_nth_drop_Suc [of 11 ?R] by simp
      ultimately show ?thesis using len by simp
    qed
    then have "map (\<lambda>row. Upsert [row]) (drop 10 ?R) = [Upsert [?R ! 10], Upsert [?R ! 11]]"
      by simp
    then show ?thesis using len by (simp add: ev ch)
  qed
  have tw: "length ?R = 12 \<longrightarrow>
      chunks 10 ?R = [take 10 ?R, drop 10 ?R] \<and>
      length (take 10 ?R) = 10 \<and> length (drop 10 ?R) = 2 \<and>
      (\<forall>d e ty msg.
         upsert_results s (n_upsert s) = Response d e \<and>
         upsert_results s (Suc (n_upsert s)) = Raises ty msg \<longrightarrow>
         new_events s (store_full_conversation s) =
           [Upsert (take 10 ?R), Sleep_ms 500, Upsert (drop 10 ?R),
            Upsert [?R ! 10], Upsert [?R ! 11], Sleep_ms 500])"
    using twelve by (rule impI)
  have st: "\<forall>r. is_stored (heap (store_full_conversation s) r) =
               (is_stored (heap s r) \<or>
                Some r \<in> set (map (first_match (heap s) (conversation_history s))
                                (written_rows (upsert_results s) (n_upsert s) (chunks 10 ?R))))"
    using store_full_conversation_stored [OF assms] by (rule allI)
  have cc: "concat (chunks 10 ?R) = ?R" by (rule concat_chunks) simp
  show ?thesis
    by (rule conjI [OF store_full_conversation_rows
          conjI [OF cc conjI [OF chunks_bounds conjI [OF ev conjI [OF st tw]]]]])
qed

lemma twelve_facts:
  "supabase twelve_state" "session_id twelve_state = Some ''session-1''"
  "conversation_history twelve_state = [0, 1, 2, 3, 4, 5, 6, 7, 8, 9, 10, 11]"
  "\<not> is_stored (heap twelve_state r)" "content_serializable (heap twelve_state r)"
  "n_upsert twelve_state = 0" "upsert_results twelve_state 0 = Response True False"
  "upsert_results twelve_state (Suc 0) = Raises ''APIError'' ''timeout''"
  "trace twelve_state = []"
  by (simp_all add: twelve_state_def example_state_def example_message_def is_stored_def
      content_serializable_def)

theorem full_flush_in_batches_witness:
  "length (sfc_rows ''session-1'' twelve_state) = 12 \<and>
   new_events twelve_state (store_full_conversation twelve_state) =
     [Upsert (take 10 (sfc_rows ''session-1'' twelve_state)), Sleep_ms 500,
      Upsert (drop 10 (sfc_rows ''session-1'' twelve_state)),
      Upsert [sfc_rows ''session-1'' twelve_state ! 10],
      Upsert [sfc_rows ''session-1'' twelve_state ! 11], Sleep_ms 500]"
proof -
  let ?R = "sfc_rows ''session-1'' twelve_state"
  have h: "supabase twelve_state" "session_id twelve_state = Some ''session-1''"
    "''session-1'' \<noteq> []"
    "list_ex (\<lambda>r. \<not> is_stored (heap twelve_state r)) (conversation_history twelve_state)"
    by (simp_all add: twelve_facts)
  note t = full_flush_in_batches [OF h]
  from t have "list_all2 (\<lambda>row r. row_for ''session-1'' (heap twelve_state r) row) ?R
      (filter (\<lambda>r. \<not> is_stored (heap twelve_state r) \<and> content_serializable (heap twelve_state r))
         (conversation_history twelve_state))"
    by (rule conjunct1)
  then have "length ?R = length (filter (\<lambda>r. \<not> is_stored (heap twelve_state r) \<and>
      content_serializable (heap twelve_state r)) (conversation_history twelve_state))"
    by (rule list_all2_lengthD)
  then have len: "length ?R = 12" by (simp add: twelve_facts)
  from t len have "\<forall>d e ty msg.
      upsert_results twelve_state (n_upsert twelve_state) = Response d e \<and>
      upsert_results twelve_state (Suc (n_upsert twelve_state)) = Raises ty msg \<longrightarrow>
      new_events twelve_state (store_full_conversation twelve_state) =
        [Upsert (take 10 ?R), Sleep_ms 500, Upsert (drop 10 ?R),
         Upsert [?R ! 10], Upsert [?R ! 11], Sleep_ms 500]"
    by blast
  moreover have "upsert_results twelve_state (n_upsert twelve_state) = Response True False \<and>
      upsert_results twelve_state (Suc (n_upsert twelve_state)) = Raises ''APIError'' ''timeout''"
    by (simp add: twelve_facts)
  ultimately have "new_events twelve_state (store_full_conversation twelve_state) =
        [Upsert (take 10 ?R), Sleep_ms 500, Upsert (drop 10 ?R),
         Upsert [?R ! 10], Upsert [?R ! 11], Sleep_ms 500]"
    by blast
  with len show ?thesis by (rule conjI)
qed

lemma eleven_facts:
  "supabase eleven_state" "session_id eleven_state = Some ''session-1''"
  "conversation_history eleven_state = [0, 1, 2, 3, 4, 5, 6, 7, 8, 9, 10]"
  "\<not> is_stored (heap eleven_state r)" "content_serializable (heap eleven_state r)"
  "n_upsert eleven_state = 0"
  "upsert_results eleven_state 0 =
     Raises ''APIError'' ''ON CONFLICT DO UPDATE command cannot affect row a second time''"
  "upsert_results eleven_state 2 = Response True False"
  "upsert_results eleven_state 11 = Response False False"
  "heap eleven_state 0 = example_message" "heap eleven_state 1 = example_message"
  "heap eleven_state (Suc 0) = example_message"
  by (simp_all add: eleven_state_def example_state_def example_message_def is_stored_def
      content_serializable_def)

lemma eleven_singles: "j < 10 \<Longrightarrow> upsert_results eleven_state (Suc j) = Response True False"
  by (simp add: eleven_state_def example_state_def)

lemma written_singly_all:
  "(\<And>j. j < length rows \<Longrightarrow> out (k + j) = Response True False) \<Longrightarrow>
   written_singly out k rows = rows"
proof (induction rows arbitrary: k)
  case Nil
  then show ?case by simp
next
  case (Cons row rows)
  have "out k = Response True False" using Cons.prems [of 0] by simp
  moreover have "written_singly out (Suc k) rows = rows"
  proof (rule Cons.IH)
    fix j assume "j < length rows"
    then show "out (Suc k + j) = Response True False" using Cons.prems [of "Suc j"] by simp
  qed
  ultimately show ?case by simp
qed

lemma first_match_in_set: "first_match h refs row = Some r \<Longrightarrow> r \<in> set refs"
  by (auto simp: first_match_def find_Some_iff)

lemma first_match_shadowed:
  assumes "h r0 = h r1" "r0 \<noteq> r1" "r1 \<notin> set rs"
  shows "first_match h (r0 # r1 # rs) row \<noteq> Some r1"
  using assms first_match_in_set [of h rs row r1] by (auto simp: first_match_Cons)

lemma row_for_matches:
  "row_for sid m row \<Longrightarrow> timestamp m = Some t \<Longrightarrow> participant_id m = None \<Longrightarrow> row_matches row m"
  by (simp add: row_for_def row_matches_def)

text \<open>
  The claim as stated fails. Of eleven unstored messages the first two have the same
  role and timestamp. The upsert of the group of ten raises and each of its ten members
  is then written alone, answered with data; yet the second message stays unstored,
  since its row marks the first message requeued. The group of one is answered without
  data, and no single-row upsert follows it.
\<close>

theorem full_flush_marks_each_counterexample:
  "length (sfc_rows ''session-1'' eleven_state) = 11 \<and>
   upsert_results eleven_state 2 = Response True False \<and>
   upsert_results eleven_state 11 = Response False False \<and>
   new_events eleven_state (store_full_conversation eleven_state) =
     Upsert (take 10 (sfc_rows ''session-1'' eleven_state)) #
     map (\<lambda>row. Upsert [row]) (take 10 (sfc_rows ''session-1'' eleven_state)) @
     [Sleep_ms 500, Upsert (drop 10 (sfc_rows ''session-1'' eleven_state)), Sleep_ms 500] \<and>
   is_stored (heap (store_full_conversation eleven_state) 0) \<and>
   \<not> is_stored (heap (store_full_conversation eleven_state) 1)"
proof -
  let ?R = "sfc_rows ''session-1'' eleven_state"
  let ?h = "heap eleven_state"
  let ?log = "conversation_history eleven_state"
  have h: "supabase eleven_state" "session_id eleven_state = Some ''session-1''"
    "''session-1'' \<noteq> []"
    "list_ex (\<lambda>r. \<not> is_stored (heap eleven_state r)) (conversation_history eleven_state)"
    by (simp_all add: eleven_facts)
  have rows: "list_all2 (\<lambda>row r. row_for ''session-1'' (?h r) row) ?R ?log"
    using store_full_conversation_rows [of "''session-1''" eleven_state]
    by (simp add: eleven_facts)
  then have len: "length ?R = 11" using list_all2_lengthD [OF rows] by (simp add: eleven_facts)
  have ch: "chunks 10 ?R = [take 10 ?R, drop 10 ?R]" using len by (simp add: chunks_two)
  have ev: "new_events eleven_state (store_full_conversation eleven_state) =
      Upsert (take 10 ?R) # map (\<lambda>row. Upsert [row]) (take 10 ?R) @
      [Sleep_ms 500, Upsert (drop 10 ?R), Sleep_ms 500]"
    using new_events_append [OF store_full_conversation_trace [OF h]] len
    by (simp add: ch eleven_facts)
  have "written_singly (upsert_results eleven_state) (Suc 0) (take 10 ?R) = take 10 ?R"
    by (rule written_singly_all) (use len in \<open>simp add: eleven_singles\<close>)
  then have wr: "written_rows (upsert_results eleven_state) 0 (chunks 10 ?R) = take 10 ?R"
    using len by (simp add: ch eleven_facts)
  have st: "is_stored (heap (store_full_conversation eleven_state) r) =
      (Some r \<in> set (map (first_match ?h ?log) (take 10 ?R)))" for r
    using store_full_conversation_stored [OF h, of r] by (simp add: wr eleven_facts)
  have "row_for ''session-1'' (?h 0) (?R ! 0)"
    using list_all2_nthD [OF rows, of 0] len by (simp add: eleven_facts)
  then have "row_matches (?R ! 0) (?h 0)"
    by (rule row_for_matches) (simp_all add: eleven_facts example_message_def)
  then have "first_match ?h ?log (?R ! 0) = Some 0"
    by (simp add: eleven_facts(3) first_match_Cons)
  moreover have "?R ! 0 \<in> set (take 10 ?R)"
    using len by (simp add: in_set_conv_nth) (rule exI [of _ 0], simp)
  ultimately have s0: "is_stored (heap (store_full_conversation eleven_state) 0)"
    unfolding st by (metis (no_types, lifting) image_eqI set_map)
  have "first_match ?h ?log row \<noteq> Some 1" for row
    unfolding eleven_facts(3)
    by (rule first_match_shadowed) (simp_all add: eleven_facts)
  then have nm: "first_match ?h ?log row = Some 1 \<Longrightarrow> False" for row by blast
  have s1: "\<not> is_stored (heap (store_full_conversation eleven_state) 1)"
    unfolding st
  proof
    assume "Some 1 \<in> set (map (first_match ?h ?log) (take 10 ?R))"
    then obtain row where "first_match ?h ?log row = Some 1" by auto
    then show False by (rule nm)
  qed
  show ?thesis using len ev s0 s1 eleven_facts(8,9) by simp
qed

lemma scm_trace_unhealthy:
  "\<not> (is_speaking s \<and> pid = ''system'') \<Longrightarrow> \<not> fst (check_supabase_health s) \<Longrightarrow>
   trace (snd (store_conversation_message sid pid conv s)) = trace s @ health_events s"
  by (simp add: scm_unhealthy log_msg_def check_supabase_health_trace)

lemma scm_trace_empty:
  "\<not> (is_speaking s \<and> pid = ''system'') \<Longrightarrow> fst (check_supabase_health s) \<Longrightarrow>
   is_empty_dict (heap s conv) \<Longrightarrow>
   trace (snd (store_conversation_message sid pid conv s)) = trace s @ health_events s"
  by (simp add: scm_empty log_msg_def check_supabase_health_trace)

lemma scm_trace_unserializable:
  "\<not> (is_speaking s \<and> pid = ''system'') \<Longrightarrow> fst (check_supabase_health s) \<Longrightarrow>
   \<not> is_empty_dict (heap s conv) \<Longrightarrow> \<not> content_serializable (heap s conv) \<Longrightarrow>
   trace (snd (store_conversation_message sid pid conv s)) = trace s @ health_events s"
  by (simp add: scm_unserializable check_supabase_health_trace)

lemma scm_trace_written:
  assumes "\<not> (is_speaking s \<and> pid = ''system'')" "fst (check_supabase_health s)"
    "\<not> is_empty_dict (heap s conv)" "content_serializable (heap s conv)"
  shows "\<exists>row. trace (snd (store_conversation_message sid pid conv s)) =
           trace s @ health_events s @ [Upsert [row]]"
proof -
  obtain row t where w: "store_conversation_message sid pid conv s = scm_upsert sid pid conv row t"
    and t: "supabase t" "trace t = trace s @ health_events s"
    using scm_written [OF assms] by blast
  have "trace (snd (store_conversation_message sid pid conv s)) =
          trace s @ health_events s @ [Upsert [row]]"
    using scm_upsert_trace [OF t(1), of sid pid conv row] t(2) by (simp add: w)
  then show ?thesis by blast
qed

lemma scm_events:
  assumes "\<not> (is_speaking s \<and> pid = ''system'')"
  shows "new_events s (snd (store_conversation_message sid pid conv s)) =
           health_events s @ filter is_upsert (new_events s (snd (store_conversation_message sid pid conv s))) \<and>
         length (filter is_upsert (new_events s (snd (store_conversation_message sid pid conv s)))) \<le> 1"
proof (cases rule: scm_cases [where s = s and pid = pid and conv = conv])
  case deferred
  then show ?thesis using assms by simp
next
  case unhealthy
  from scm_trace_unhealthy [OF this] have
    "new_events s (snd (store_conversation_message sid pid conv s)) = health_events s"
    by (rule new_events_append)
  then show ?thesis by (simp add: health_events_probe)
next
  case empty
  from scm_trace_empty [OF this] have
    "new_events s (snd (store_conversation_message sid pid conv s)) = health_events s"
    by (rule new_events_append)
  then show ?thesis by (simp add: health_events_probe)
next
  case unserializable
  from scm_trace_unserializable [OF this] have
    "new_events s (snd (store_conversation_message sid pid conv s)) = health_events s"
    by (rule new_events_append)
  then show ?thesis by (simp add: health_events_probe)
next
  case written
  from scm_trace_written [OF this] obtain row where
    "trace (snd (store_conversation_message sid pid conv s)) =
       trace s @ health_events s @ [Upsert [row]]" by blast
  then have "new_events s (snd (store_conversation_message sid pid conv s)) =
      health_events s @ [Upsert [row]]"
    by (rule new_events_append)
  then show ?thesis by (simp add: health_events_probe)
qed

text \<open>
  Claim C2, as amended. A single-message write that is not deferred by the speaking
  gate runs the health probe before anything else: its calls are those of the probe,
  followed by at most one upsert. When the probe reports unhealthy there is no upsert,
  the message is enqueued and the write returns False. The batch flush runs no health
  probe at all: it makes no select and no client initialisation, and its only gate on
  the store is that the client object exists.
\<close>

theorem health_probe_gates_single_write:
  "(\<not> (is_speaking s \<and> pid = ''system'') \<longrightarrow>
      new_events s (snd (store_conversation_message sid pid conv s)) =
        health_events s @
        filter is_upsert (new_events s (snd (store_conversation_message sid pid conv s))) \<and>
      length (filter is_upsert (new_events s (snd (store_conversation_message sid pid conv s)))) \<le> 1 \<and>
      (\<not> fst (check_supabase_health s) \<longrightarrow>
         filter is_upsert (new_events s (snd (store_conversation_message sid pid conv s))) = [] \<and>
         fst (store_conversation_message sid pid conv s) = Returned False \<and>
         enqueued_for sid pid (heap s conv) (retry_queue s)
           (retry_queue (snd (store_conversation_message sid pid conv s))))) \<and>
   new_events s (snd (check_supabase_health s)) = health_events s \<and>
   health_events s \<noteq> [] \<and> list_all is_probe (health_events s) \<and>
   filter is_probe (new_events s (store_full_conversation s)) = [] \<and>
   n_select (store_full_conversation s) = n_select s \<and>
   n_init (store_full_conversation s) = n_init s \<and>
   (\<not> supabase s \<longrightarrow> new_events s (store_full_conversation s) = [])"
proof -
  let ?r = "store_conversation_message sid pid conv s"
  have un: "filter is_upsert (new_events s (snd ?r)) = [] \<and> fst ?r = Returned False \<and>
      enqueued_for sid pid (heap s conv) (retry_queue s) (retry_queue (snd ?r))"
    if h: "\<not> (is_speaking s \<and> pid = ''system'')" "\<not> fst (check_supabase_health s)"
  proof -
    have "new_events s (snd ?r) = health_events s"
      using scm_trace_unhealthy [OF h] by (rule new_events_append)
    moreover have "enqueued_for sid pid (heap s conv) (retry_queue s)
        (retry_queue (snd (add_to_retry_queue sid pid conv
           (log_msg Error ''Supabase client not available, adding message to retry queue''
              (snd (check_supabase_health s))))))"
      by (rule enqueued_forI) (simp_all add: log_msg_def)
    ultimately show ?thesis using h by (simp add: scm_unhealthy health_events_probe)
  qed
  have single: "\<not> (is_speaking s \<and> pid = ''system'') \<longrightarrow>
      new_events s (snd ?r) = health_events s @ filter is_upsert (new_events s (snd ?r)) \<and>
      length (filter is_upsert (new_events s (snd ?r))) \<le> 1 \<and>
      (\<not> fst (check_supabase_health s) \<longrightarrow>
         filter is_upsert (new_events s (snd ?r)) = [] \<and> fst ?r = Returned False \<and>
         enqueued_for sid pid (heap s conv) (retry_queue s) (retry_queue (snd ?r)))"
    using scm_events [of s pid sid conv] un by blast
  have probe: "new_events s (snd (check_supabase_health s)) = health_events s"
    using check_supabase_health_trace by (rule new_events_append)
  have gate: "\<not> supabase s \<longrightarrow> new_events s (store_full_conversation s) = []"
    by (simp add: store_full_conversation_def log_msg_def new_events_def)
  show ?thesis
    using single probe health_events_probe(1,2) [of s] store_full_conversation_no_probe [of s] gate
    by blast
qed

lemma chunks_one: "xs \<noteq> [] \<Longrightarrow> length xs \<le> 10 \<Longrightarrow> chunks 10 xs = [xs]"
  by (simp add: chunks_step [of 10 xs])

theorem health_probe_gates_single_write_witness:
  "fst (check_supabase_health unreachable_state) = False \<and>
   new_events unreachable_state
     (snd (store_conversation_message ''session-1'' ''user'' 0 unreachable_state)) =
     [Select_probe, Init_supabase] \<and>
   fst (store_conversation_message ''session-1'' ''user'' 0 unreachable_state) = Returned False \<and>
   retry_queue (snd (store_conversation_message ''session-1'' ''user'' 0 unreachable_state)) \<noteq> []"
proof -
  have h: "\<not> (is_speaking unreachable_state \<and> ''user'' = ''system'')"
    "\<not> fst (check_supabase_health unreachable_state)"
    "health_events unreachable_state = [Select_probe, Init_supabase]"
    by (simp_all add: unreachable_state_def example_state_def is_speaking_def
        check_supabase_health_def init_supabase_def log_msg_def health_events_def)
  let ?r = "store_conversation_message ''session-1'' ''user'' 0 unreachable_state"
  have a: "new_events unreachable_state (snd ?r) =
        health_events unreachable_state @ filter is_upsert (new_events unreachable_state (snd ?r)) \<and>
      filter is_upsert (new_events unreachable_state (snd ?r)) = [] \<and>
      fst ?r = Returned False \<and>
      enqueued_for ''session-1'' ''user'' (heap unreachable_state 0) (retry_queue unreachable_state)
        (retry_queue (snd ?r))"
    using health_probe_gates_single_write [of unreachable_state "''user''" "''session-1''" 0] h(1,2)
    by blast
  then have "retry_queue (snd ?r) \<noteq> []" using enqueued_for_grows by blast
  moreover have "new_events unreachable_state (snd ?r) = [Select_probe, Init_supabase]"
  proof -
    from a have e1: "new_events unreachable_state (snd ?r) =
        health_events unreachable_state @ filter is_upsert (new_events unreachable_state (snd ?r))"
      by (rule conjunct1)
    from a have e2: "filter is_upsert (new_events unreachable_state (snd ?r)) = []" by blast
    show ?thesis using e1 unfolding e2 h(3) by simp
  qed
  moreover from a have "fst ?r = Returned False" by blast
  ultimately show ?thesis using h(2) by simp
qed

text \<open>
  The claim as stated fails for the batch flush: with a store that the health probe
  would report unhealthy, the flush still upserts, and it runs no probe.
\<close>

theorem flush_runs_health_probe_counterexample:
  "fst (check_supabase_health refusing_state) = False \<and>
   length (sfc_rows ''session-1'' refusing_state) = 1 \<and>
   new_events refusing_state (store_full_conversation refusing_state) =
     [Upsert (sfc_rows ''session-1'' refusing_state),
      Upsert [sfc_rows ''session-1'' refusing_state ! 0], Sleep_ms 500]"
proof -
  let ?R = "sfc_rows ''session-1'' refusing_state"
  have f: "supabase refusing_state" "session_id refusing_state = Some ''session-1''"
    "conversation_history refusing_state = [0]"
    "\<not> is_stored (heap refusing_state r)" "content_serializable (heap refusing_state r)"
    "n_upsert refusing_state = 0"
    "upsert_results refusing_state 0 = Raises ''ConnectError'' ''connection refused''"
    "\<not> fst (check_supabase_health refusing_state)" for r
    by (simp_all add: refusing_state_def unreachable_state_def example_state_def
        example_message_def is_stored_def content_serializable_def check_supabase_health_def
        init_supabase_def log_msg_def)
  have h: "supabase refusing_state" "session_id refusing_state = Some ''session-1''"
    "''session-1'' \<noteq> []"
    "list_ex (\<lambda>r. \<not> is_stored (heap refusing_state r)) (conversation_history refusing_state)"
    by (simp_all add: f)
  have "list_all2 (\<lambda>row r. row_for ''session-1'' (heap refusing_state r) row) ?R [0]"
    using store_full_conversation_rows [of "''session-1''" refusing_state] by (simp add: f)
  then have len: "length ?R = 1" using list_all2_lengthD by fastforce
  then obtain x where x: "?R = [x]" by (cases ?R) auto
  have ch: "chunks 10 ?R = [?R]" using len by (intro chunks_one) auto
  have "new_events refusing_state (store_full_conversation refusing_state) =
      [Upsert ?R, Upsert [?R ! 0], Sleep_ms 500]"
    using new_events_append [OF store_full_conversation_trace [OF h]]
    by (simp add: ch f) (simp add: x)
  then show ?thesis using len f(8) by simp
qed

lemma scm_message_id_more [simp]:
  "n_utc (snd (scm_message_id conv s)) = n_utc s"
  "utc_now (snd (scm_message_id conv s)) = utc_now s"
  "logs (snd (scm_message_id conv s)) = logs s"
  "fst (scm_message_id conv s) = scm_mid s conv"
  "heap (snd (scm_message_id conv s)) conv = (heap s conv)\<lparr>message_id := Some (scm_mid s conv)\<rparr>"
  by (auto simp: scm_message_id_def new_uuid_def Let_def scm_mid_def)

lemma scm_mid_health [simp]: "scm_mid (snd (check_supabase_health s)) conv = scm_mid s conv"
  by (simp add: scm_mid_def split: option.splits)

lemma serializable_message_id [simp]:
  "serializable_message (m\<lparr>message_id := x\<rparr>) = serializable_message m"
  "content_serializable (m\<lparr>message_id := x\<rparr>) = content_serializable m"
  "make_safe_message (m\<lparr>message_id := x\<rparr>) now mid = make_safe_message m now mid"
  by (simp_all add: serializable_message_def content_serializable_def make_safe_message_def)

lemma scm_unfold:
  assumes "\<not> (is_speaking s \<and> pid = ''system'')" "fst (check_supabase_health s)"
    "\<not> is_empty_dict (heap s conv)"
  shows "store_conversation_message sid pid conv s =
     (case scm_insert_data sid pid conv (scm_mid s conv)
             (snd (scm_message_id conv (snd (check_supabase_health s)))) of
        (Raised e, s4) \<Rightarrow> (Raised e, s4)
      | (Returned row, s4) \<Rightarrow> scm_upsert sid pid conv row s4)"
  using assms
  by (auto simp: store_conversation_message_def split_def Let_def cong: outcome.case_cong)

lemma scm_trace_full:
  assumes "\<not> (is_speaking s \<and> pid = ''system'')" "fst (check_supabase_health s)"
    "\<not> is_empty_dict (heap s conv)" "serializable_message (heap s conv)"
  shows "trace (snd (store_conversation_message sid pid conv s)) =
     trace s @ health_events s @
     [Upsert [full_insert_data sid pid ((heap s conv)\<lparr>message_id := Some (scm_mid s conv)\<rparr>)
                (utc_now s (n_utc s))]]"
proof -
  let ?s3 = "snd (scm_message_id conv (snd (check_supabase_health s)))"
  let ?row = "full_insert_data sid pid ((heap s conv)\<lparr>message_id := Some (scm_mid s conv)\<rparr>)
                (utc_now s (n_utc s))"
  let ?t = "snd (scm_insert_data sid pid conv (scm_mid s conv) ?s3)"
  have "serializable_message (heap ?s3 conv)" using assms(4) by simp
  from scm_insert_data_full [OF this, of sid pid "scm_mid s conv"]
  have row: "fst (scm_insert_data sid pid conv (scm_mid s conv) ?s3) = Returned ?row" by simp
  have r: "store_conversation_message sid pid conv s = scm_upsert sid pid conv ?row ?t"
    using row by (simp add: scm_unfold [OF assms(1-3)] split_def)
  have "supabase ?t" using assms(2) by (simp add: check_supabase_health_True)
  from scm_upsert_trace [OF this, of sid pid conv ?row] show ?thesis
    by (simp add: r check_supabase_health_trace)
qed

lemma scm_trace_safe:
  assumes "\<not> (is_speaking s \<and> pid = ''system'')" "fst (check_supabase_health s)"
    "\<not> is_empty_dict (heap s conv)" "\<not> serializable_message (heap s conv)"
    "content_serializable (heap s conv)"
  shows "trace (snd (store_conversation_message sid pid conv s)) =
     trace s @ health_events s @
     [Upsert [safe_insert_data sid pid
                (make_safe_message (heap s conv) (utc_now s (n_utc s)) (scm_mid s conv))]]"
proof -
  let ?s3 = "snd (scm_message_id conv (snd (check_supabase_health s)))"
  let ?row = "safe_insert_data sid pid
                (make_safe_message (heap s conv) (utc_now s (n_utc s)) (scm_mid s conv))"
  let ?t = "snd (scm_insert_data sid pid conv (scm_mid s conv) ?s3)"
  have "\<not> serializable_message (heap ?s3 conv)" "content_serializable (heap ?s3 conv)"
    using assms(4,5) by simp_all
  from scm_insert_data_safe [OF this, of sid pid "scm_mid s conv"]
  have row: "fst (scm_insert_data sid pid conv (scm_mid s conv) ?s3) = Returned ?row" by simp
  have r: "store_conversation_message sid pid conv s = scm_upsert sid pid conv ?row ?t"
    using row by (simp add: scm_unfold [OF assms(1-3)] split_def)
  have "supabase ?t" using assms(2) by (simp add: check_supabase_health_True)
  from scm_upsert_trace [OF this, of sid pid conv ?row] show ?thesis
    by (simp add: r check_supabase_health_trace)
qed

lemma scm_dropped:
  assumes "\<not> (is_speaking s \<and> pid = ''system'')" "fst (check_supabase_health s)"
    "\<not> is_empty_dict (heap s conv)" "\<not> content_serializable (heap s conv)"
  shows "fst (store_conversation_message sid pid conv s) = Raised TypeError"
    and "retry_queue (snd (store_conversation_message sid pid conv s)) = retry_queue s"
    and "(Error, ''Failed to serialize message data'')
           \<in> set (logs (snd (store_conversation_message sid pid conv s)))"
proof -
  let ?s3 = "snd (scm_message_id conv (snd (check_supabase_health s)))"
  have ns: "\<not> serializable_message (heap ?s3 conv)"
    using assms(4) serializable_message_content [of "heap s conv"] by auto
  show "fst (store_conversation_message sid pid conv s) = Raised TypeError"
    "retry_queue (snd (store_conversation_message sid pid conv s)) = retry_queue s"
    using assms by (simp_all add: scm_unserializable)
  show "(Error, ''Failed to serialize message data'')
           \<in> set (logs (snd (store_conversation_message sid pid conv s)))"
    using assms scm_insert_data_logs [OF ns, of sid pid "scm_mid s conv"]
    by (simp add: scm_unserializable)
qed

lemma sfc_insert_data_dropped:
  "\<not> content_serializable (heap s r) \<Longrightarrow>
   logs (snd (sfc_insert_data sid r s)) =
     logs s @ [(Error, ''Failed to serialize message for batch storage''),
               (Error, ''Could not create safe version of message'')]"
  using serializable_message_content [of "heap s r"]
  by (auto simp: sfc_insert_data_def get_current_timestamp_def log_msg_def Let_def
      content_serializable_def make_safe_message_def)

text \<open>
  How the two writers serialise a message. When \<open>json.dumps\<close> of the message fails,
  both build the reduced record \<open>safe_message\<close>, which has the fields role, content,
  timestamp and message_id and nothing else, and serialise that once more; the reduced
  record serialises exactly when the content of the message does. If it does, the row
  that is upserted carries the reduced record. If it does not, the flush logs that and
  leaves the message out of its rows, while the second \<open>json.dumps\<close> of the
  single-message write raises out of the function. A message that serialises is sent as
  it is.
\<close>

lemma serialization_cases:
  "(\<not> (is_speaking s \<and> pid = ''system'') \<and> fst (check_supabase_health s) \<and>
    \<not> is_empty_dict (heap s conv) \<longrightarrow>
      (serializable_message (heap s conv) \<longrightarrow>
         new_events s (snd (store_conversation_message sid pid conv s)) =
           health_events s @
           [Upsert [full_insert_data sid pid
                      ((heap s conv)\<lparr>message_id := Some (scm_mid s conv)\<rparr>)
                      (utc_now s (n_utc s))]]) \<and>
      (\<not> serializable_message (heap s conv) \<and> content_serializable (heap s conv) \<longrightarrow>
         new_events s (snd (store_conversation_message sid pid conv s)) =
           health_events s @
           [Upsert [safe_insert_data sid pid
                      (make_safe_message (heap s conv) (utc_now s (n_utc s)) (scm_mid s conv))]]) \<and>
      (\<not> content_serializable (heap s conv) \<longrightarrow>
         fst (store_conversation_message sid pid conv s) = Raised TypeError \<and>
         new_events s (snd (store_conversation_message sid pid conv s)) = health_events s \<and>
         retry_queue (snd (store_conversation_message sid pid conv s)) = retry_queue s \<and>
         (Error, ''Failed to serialize message data'')
           \<in> set (logs (snd (store_conversation_message sid pid conv s))))) \<and>
   (\<not> serializable_message (heap s r) \<and> content_serializable (heap s r) \<longrightarrow>
      fst (sfc_insert_data sid r s) =
        Some (safe_insert_data sid
          (case participant_id (heap s r) of
             Some p \<Rightarrow> p
           | None \<Rightarrow> (case role (heap s r) of Some x \<Rightarrow> x | None \<Rightarrow> ''unknown''))
          (make_safe_message (heap s r) (utc_now s (n_utc s))
             (case message_id (heap s r) of Some i \<Rightarrow> i | None \<Rightarrow> [])))) \<and>
   (\<not> content_serializable (heap s r) \<longrightarrow>
      fst (sfc_insert_data sid r s) = None \<and>
      logs (snd (sfc_insert_data sid r s)) =
        logs s @ [(Error, ''Failed to serialize message for batch storage''),
                  (Error, ''Could not create safe version of message'')]) \<and>
   list_all2 (\<lambda>row r. row_for sid (heap s r) row) (sfc_rows sid s)
     (filter (\<lambda>r. \<not> is_stored (heap s r) \<and> content_serializable (heap s r))
        (conversation_history s)) \<and>
   serializable (sm_content (make_safe_message m now mid)) = content_serializable m \<and>
   (serializable_message m \<longrightarrow> content_serializable m)"
proof -
  let ?g = "\<not> (is_speaking s \<and> pid = ''system'') \<and> fst (check_supabase_health s) \<and>
    \<not> is_empty_dict (heap s conv)"
  let ?r = "store_conversation_message sid pid conv s"
  have a: "?g \<longrightarrow> serializable_message (heap s conv) \<longrightarrow>
      new_events s (snd ?r) = health_events s @
        [Upsert [full_insert_data sid pid ((heap s conv)\<lparr>message_id := Some (scm_mid s conv)\<rparr>)
                   (utc_now s (n_utc s))]]"
    using scm_trace_full [of s pid conv sid] by (auto simp: new_events_def)
  have b: "?g \<longrightarrow> \<not> serializable_message (heap s conv) \<and> content_serializable (heap s conv) \<longrightarrow>
      new_events s (snd ?r) = health_events s @
        [Upsert [safe_insert_data sid pid
                   (make_safe_message (heap s conv) (utc_now s (n_utc s)) (scm_mid s conv))]]"
    using scm_trace_safe [of s pid conv sid] by (auto simp: new_events_def)
  have c: "?g \<longrightarrow> \<not> content_serializable (heap s conv) \<longrightarrow>
      fst ?r = Raised TypeError \<and> new_events s (snd ?r) = health_events s \<and>
      retry_queue (snd ?r) = retry_queue s \<and>
      (Error, ''Failed to serialize message data'') \<in> set (logs (snd ?r))"
    using scm_dropped [of s pid conv sid] scm_trace_unserializable [of s pid conv sid]
    by (auto simp: new_events_def)
  have d: "\<not> serializable_message (heap s r) \<and> content_serializable (heap s r) \<longrightarrow>
      fst (sfc_insert_data sid r s) =
        Some (safe_insert_data sid
          (case participant_id (heap s r) of
             Some p \<Rightarrow> p
           | None \<Rightarrow> (case role (heap s r) of Some x \<Rightarrow> x | None \<Rightarrow> ''unknown''))
          (make_safe_message (heap s r) (utc_now s (n_utc s))
             (case message_id (heap s r) of Some i \<Rightarrow> i | None \<Rightarrow> [])))"
    using sfc_insert_data_safe [of s r sid] by blast
  have e: "\<not> content_serializable (heap s r) \<longrightarrow>
      fst (sfc_insert_data sid r s) = None \<and>
      logs (snd (sfc_insert_data sid r s)) =
        logs s @ [(Error, ''Failed to serialize message for batch storage''),
                  (Error, ''Could not create safe version of message'')]"
    using sfc_insert_data_None [of s r sid] sfc_insert_data_dropped [of s r sid] by blast
  have f: "serializable (sm_content (make_safe_message m now mid)) = content_serializable m"
    by (simp add: make_safe_message_def content_serializable_def)
  have g: "serializable_message m \<longrightarrow> content_serializable m"
    using serializable_message_content by blast
  show ?thesis
    using a b c d e store_full_conversation_rows [of sid s] f g by blast
qed


lemma coroutine_facts:
  "\<not> (is_speaking coroutine_state \<and> ''user'' = ''system'')"
  "fst (check_supabase_health coroutine_state)"
  "\<not> is_empty_dict (heap coroutine_state 0)" "content_serializable (heap coroutine_state 0)"
  "\<not> serializable_message (heap coroutine_state 0)"
  "health_events coroutine_state = [Select_probe]"
  "make_safe_message (heap coroutine_state 0) (utc_now coroutine_state (n_utc coroutine_state))
     (scm_mid coroutine_state 0) =
   \<lparr>sm_role = ''user'', sm_content = PStr ''hello'',
     sm_timestamp = ''2025-01-01T10:00:00+00:00'', sm_message_id = ''u''\<rparr>"
  by (simp_all add: coroutine_state_def example_state_def example_message_def is_speaking_def
      check_supabase_health_def is_empty_dict_def content_serializable_def health_events_def
      serializable_message_def make_safe_message_def scm_mid_def)



lemma prq_item_exhausted:
  "retry_count item \<ge> 5 \<Longrightarrow>
   prq_item item (s, n) =
     (log_msg Warning ''Skipping message that has failed too many times'' s, n)"
  by (simp add: prq_item_def)

lemma prq_item_unhealthy:
  "retry_count item < 5 \<Longrightarrow> \<not> fst (check_supabase_health s) \<Longrightarrow>
   prq_item item (s, n) =
     (requeue item (log_msg Warning ''Supabase connection not healthy, adding back to retry queue''
        (snd (check_supabase_health s))), n)"
  by (simp add: prq_item_def split_def)

lemma prq_item_unserializable:
  "retry_count item < 5 \<Longrightarrow> fst (check_supabase_health s) \<Longrightarrow>
   \<not> serializable (sm_content (item_conversation item)) \<Longrightarrow>
   prq_item item (s, n) =
     (emit (Sleep_ms 200) (requeue item (log_msg Error ''Error processing retry item''
        (snd (check_supabase_health s)))), n)"
  by (simp add: prq_item_def split_def)

lemma prq_item_upsert:
  assumes "retry_count item < 5" "fst (check_supabase_health s)"
    "serializable (sm_content (item_conversation item))"
  shows "prq_item item (s, n) =
     (let s3 = (snd (check_supabase_health s))
                 \<lparr>n_utc := Suc (n_utc s), n_upsert := Suc (n_upsert s),
                  trace := trace s @ health_events s @ [Upsert [item_insert_data item]]\<rparr>
      in case upsert_results s (n_upsert s) of
           Response d e \<Rightarrow>
             if d then (emit (Sleep_ms 200) s3, n + 1)
             else (emit (Sleep_ms 200)
                     (requeue item (log_msg Warning ''Failed to store retry item'' s3)), n)
         | Raises ty msg \<Rightarrow>
             (emit (Sleep_ms 200)
                (requeue item (log_msg Error ''Error processing retry item'' s3)), n))"
proof -
  have "supabase (snd (check_supabase_health s))"
    using assms(2) by (rule check_supabase_health_True)
  then show ?thesis
    using assms
    by (simp add: prq_item_def split_def Let_def get_current_timestamp_def upsert_def
        check_supabase_health_trace split: upsert_outcome.splits)
qed

lemma prq_item_summary:
  "\<exists>evs. trace (fst (prq_item item (s, n))) = trace s @ evs \<and>
     (if retry_count item \<ge> 5
      then retry_queue (fst (prq_item item (s, n))) = retry_queue s \<and>
           snd (prq_item item (s, n)) = n \<and> filter is_upsert evs = []
      else (retry_queue (fst (prq_item item (s, n))) = retry_queue s @ [bump item] \<and>
            snd (prq_item item (s, n)) = n \<or>
            retry_queue (fst (prq_item item (s, n))) = retry_queue s \<and>
            snd (prq_item item (s, n)) = Suc n) \<and>
           (filter is_upsert evs = [] \<or> filter is_upsert evs = [Upsert [item_insert_data item]]))"
proof (cases "retry_count item \<ge> 5")
  case True
  then show ?thesis by (simp add: prq_item_exhausted log_msg_def)
next
  case False
  then have lt: "retry_count item < 5" by simp
  show ?thesis
  proof (cases "fst (check_supabase_health s)")
    case h: False
    have "trace (fst (prq_item item (s, n))) = trace s @ health_events s"
      by (simp add: prq_item_unhealthy [OF lt h] requeue_def log_msg_def check_supabase_health_trace)
    then show ?thesis
      using lt
      by (intro exI [of _ "health_events s"])
        (simp add: prq_item_unhealthy [OF lt h] requeue_def log_msg_def bump_def health_events_probe)
  next
    case h: True
    show ?thesis
    proof (cases "serializable (sm_content (item_conversation item))")
      case ser: False
      show ?thesis
        using lt
        by (intro exI [of _ "health_events s @ [Sleep_ms 200]"])
          (simp add: prq_item_unserializable [OF lt h ser] requeue_def log_msg_def bump_def
            emit_def health_events_probe check_supabase_health_trace)
    next
      case ser: True
      show ?thesis
      proof (cases "upsert_results s (n_upsert s)")
        case (Response d e)
        then show ?thesis
          using lt
          by (intro exI [of _ "health_events s @ [Upsert [item_insert_data item], Sleep_ms 200]"])
            (cases d; simp add: prq_item_upsert [OF lt h ser] requeue_def log_msg_def bump_def
              emit_def health_events_probe Let_def)
      next
        case (Raises ty msg)
        then show ?thesis
          using lt
          by (intro exI [of _ "health_events s @ [Upsert [item_insert_data item], Sleep_ms 200]"])
            (simp add: prq_item_upsert [OF lt h ser] requeue_def log_msg_def bump_def
              emit_def health_events_probe Let_def)
      qed
    qed
  qed
qed

lemma prq_loop_Cons: "prq_loop (x # xs) acc = prq_loop xs (prq_item x acc)"
  by (simp add: prq_loop_def)

lemma prq_loop_summary:
  "\<exists>ys evs.
     retry_queue (fst (prq_loop xs (s, n))) = retry_queue s @ map bump ys \<and>
     subseq ys (filter (\<lambda>i. retry_count i < 5) xs) \<and>
     trace (fst (prq_loop xs (s, n))) = trace s @ evs \<and>
     subseq (filter is_upsert evs)
       (map (\<lambda>i. Upsert [item_insert_data i]) (filter (\<lambda>i. retry_count i < 5) xs)) \<and>
     snd (prq_loop xs (s, n)) + length ys = n + length (filter (\<lambda>i. retry_count i < 5) xs)"
proof (induction xs arbitrary: s n)
  case Nil
  show ?case by (simp add: prq_loop_def)
next
  case (Cons x xs)
  obtain s1 n1 where p: "prq_item x (s, n) = (s1, n1)" by (cases "prq_item x (s, n)")
  obtain evs1 where e1: "trace s1 = trace s @ evs1"
    and c1: "if retry_count x \<ge> 5
      then retry_queue s1 = retry_queue s \<and> n1 = n \<and> filter is_upsert evs1 = []
      else (retry_queue s1 = retry_queue s @ [bump x] \<and> n1 = n \<or>
            retry_queue s1 = retry_queue s \<and> n1 = Suc n) \<and>
           (filter is_upsert evs1 = [] \<or> filter is_upsert evs1 = [Upsert [item_insert_data x]])"
    using prq_item_summary [of x s n] unfolding p fst_conv snd_conv by blast
  obtain ys evs where ih:
    "retry_queue (fst (prq_loop xs (s1, n1))) = retry_queue s1 @ map bump ys"
    "subseq ys (filter (\<lambda>i. retry_count i < 5) xs)"
    "trace (fst (prq_loop xs (s1, n1))) = trace s1 @ evs"
    "subseq (filter is_upsert evs)
       (map (\<lambda>i. Upsert [item_insert_data i]) (filter (\<lambda>i. retry_count i < 5) xs))"
    "snd (prq_loop xs (s1, n1)) + length ys = n1 + length (filter (\<lambda>i. retry_count i < 5) xs)"
    using Cons.IH [of s1 n1] by blast
  have step: "prq_loop (x # xs) (s, n) = prq_loop xs (s1, n1)" by (simp add: prq_loop_Cons p)
  show ?case
  proof (cases "retry_count x \<ge> 5")
    case True
    with c1 have "retry_queue s1 = retry_queue s" "n1 = n" "filter is_upsert evs1 = []" by simp_all
    then show ?thesis
      using ih True e1
      by (intro exI [of _ ys] exI [of _ "evs1 @ evs"]) (simp add: step)
  next
    case False
    with c1 have q: "retry_queue s1 = retry_queue s @ [bump x] \<and> n1 = n \<or>
        retry_queue s1 = retry_queue s \<and> n1 = Suc n"
      and u: "filter is_upsert evs1 = [] \<or> filter is_upsert evs1 = [Upsert [item_insert_data x]]"
      by simp_all
    have ups: "subseq (filter is_upsert (evs1 @ evs))
        (map (\<lambda>i. Upsert [item_insert_data i]) (filter (\<lambda>i. retry_count i < 5) (x # xs)))"
      using u ih(4) False by auto
    from q show ?thesis
    proof
      assume a: "retry_queue s1 = retry_queue s @ [bump x] \<and> n1 = n"
      show ?thesis
        using ih ups a False e1
        by (intro exI [of _ "x # ys"] exI [of _ "evs1 @ evs"]) (simp add: step)
    next
      assume a: "retry_queue s1 = retry_queue s \<and> n1 = Suc n"
      have "subseq ys (x # filter (\<lambda>i. retry_count i < 5) xs)"
        using ih(2) by (rule list_emb_Cons)
      then show ?thesis
        using ih ups a False e1
        by (intro exI [of _ ys] exI [of _ "evs1 @ evs"]) (simp add: step)
    qed
  qed
qed

lemma process_retry_queue_loop:
  "retry_queue s \<noteq> [] \<Longrightarrow> supabase s \<Longrightarrow>
   process_retry_queue batch_size s =
     (snd (prq_loop (take (min batch_size (length (retry_queue s))) (retry_queue s))
             (s\<lparr>retry_queue := drop (min batch_size (length (retry_queue s))) (retry_queue s)\<rparr>, 0)),
      fst (prq_loop (take (min batch_size (length (retry_queue s))) (retry_queue s))
             (s\<lparr>retry_queue := drop (min batch_size (length (retry_queue s))) (retry_queue s)\<rparr>, 0)))"
  by (simp add: process_retry_queue_def prq_loop_def Let_def split_def)

text \<open>
  Claim C6. Take an item of a drain whose retry_count is below 5. If the health probe
  reports unhealthy, the item goes back to the end of the queue, the same item in every
  field but retry_count, which is one higher, and no upsert is made. If the probe
  reports healthy, one upsert is made, of the one row that carries the item's session,
  participant, reduced record, raw content, message count, email, timestamp and
  email_sent. If it is answered with data, the item is discarded and counted as stored.
  If it is answered without data or raises, the item goes back to the end of the queue
  with retry_count one higher, as it does without an upsert when it cannot be
  serialised. A drain pops its items from the front of the queue and runs this on each
  in turn.
\<close>

theorem retry_drain_item:
  "(let requeued = item\<lparr>retry_count := retry_count item + 1\<rparr>;
        row = \<lparr> row_session_id = item_session_id item,
                row_participant_id = item_participant_id item,
                row_conversation = Json_safe (item_conversation item),
                row_raw_conversation = item_raw_conversation item,
                row_message_count = item_message_count item,
                row_user_email = item_user_email item,
                row_timestamp = item_timestamp item,
                row_email_sent = item_email_sent item \<rparr>
    in
    (retry_count item < 5 \<longrightarrow>
      (\<not> fst (check_supabase_health s) \<longrightarrow>
         retry_queue (fst (prq_item item (s, n))) = retry_queue s @ [requeued] \<and>
         new_events s (fst (prq_item item (s, n))) = health_events s \<and>
         snd (prq_item item (s, n)) = n) \<and>
      (fst (check_supabase_health s) \<and> serializable (sm_content (item_conversation item)) \<and>
       upsert_results s (n_upsert s) = Response True e \<longrightarrow>
         retry_queue (fst (prq_item item (s, n))) = retry_queue s \<and>
         new_events s (fst (prq_item item (s, n))) =
           health_events s @ [Upsert [row], Sleep_ms 200] \<and>
         snd (prq_item item (s, n)) = Suc n) \<and>
      (fst (check_supabase_health s) \<and> serializable (sm_content (item_conversation item)) \<and>
       (upsert_results s (n_upsert s) = Response False e \<or>
        upsert_results s (n_upsert s) = Raises ty msg) \<longrightarrow>
         retry_queue (fst (prq_item item (s, n))) = retry_queue s @ [requeued] \<and>
         new_events s (fst (prq_item item (s, n))) =
           health_events s @ [Upsert [row], Sleep_ms 200] \<and>
         snd (prq_item item (s, n)) = n) \<and>
      (fst (check_supabase_health s) \<and> \<not> serializable (sm_content (item_conversation item)) \<longrightarrow>
         retry_queue (fst (prq_item item (s, n))) = retry_queue s @ [requeued] \<and>
         new_events s (fst (prq_item item (s, n))) = health_events s @ [Sleep_ms 200] \<and>
         snd (prq_item item (s, n)) = n)) \<and>
    retry_count requeued = retry_count item + 1 \<and>
    item_session_id requeued = item_session_id item \<and>
    item_participant_id requeued = item_participant_id item \<and>
    item_conversation requeued = item_conversation item \<and>
    item_timestamp requeued = item_timestamp item) \<and>
   filter is_upsert (health_events s) = [] \<and>
   (retry_queue s \<noteq> [] \<and> supabase s \<longrightarrow>
      process_retry_queue batch_size s =
        (snd (prq_loop (take (min batch_size (length (retry_queue s))) (retry_queue s))
                (s\<lparr>retry_queue := drop (min batch_size (length (retry_queue s))) (retry_queue s)\<rparr>, 0)),
         fst (prq_loop (take (min batch_size (length (retry_queue s))) (retry_queue s))
                (s\<lparr>retry_queue := drop (min batch_size (length (retry_queue s))) (retry_queue s)\<rparr>, 0)))) \<and>
   prq_loop [] acc = acc \<and>
   prq_loop (x # xs) acc = prq_loop xs (prq_item x acc)"
proof -
  let ?p = "prq_item item (s, n)"
  let ?requeued = "item\<lparr>retry_count := retry_count item + 1\<rparr>"
  let ?row = "\<lparr> row_session_id = item_session_id item,
                row_participant_id = item_participant_id item,
                row_conversation = Json_safe (item_conversation item),
                row_raw_conversation = item_raw_conversation item,
                row_message_count = item_message_count item,
                row_user_email = item_user_email item,
                row_timestamp = item_timestamp item,
                row_email_sent = item_email_sent item \<rparr>"
  have a: "retry_queue (fst ?p) = retry_queue s @ [?requeued] \<and>
      new_events s (fst ?p) = health_events s \<and> snd ?p = n"
    if "retry_count item < 5" "\<not> fst (check_supabase_health s)"
    by (simp add: prq_item_unhealthy [OF that] requeue_def log_msg_def bump_def new_events_def
        check_supabase_health_trace)
  have b: "retry_queue (fst ?p) = retry_queue s \<and>
      new_events s (fst ?p) = health_events s @ [Upsert [?row], Sleep_ms 200] \<and>
      snd ?p = Suc n"
    if "retry_count item < 5" "fst (check_supabase_health s)"
      "serializable (sm_content (item_conversation item))"
      "upsert_results s (n_upsert s) = Response True e"
    using that(4)
    by (simp add: prq_item_upsert [OF that(1-3)] Let_def emit_def new_events_def
        item_insert_data_def)
  have c: "retry_queue (fst ?p) = retry_queue s @ [?requeued] \<and>
      new_events s (fst ?p) = health_events s @ [Upsert [?row], Sleep_ms 200] \<and>
      snd ?p = n"
    if "retry_count item < 5" "fst (check_supabase_health s)"
      "serializable (sm_content (item_conversation item))"
      "upsert_results s (n_upsert s) = Response False e \<or>
       upsert_results s (n_upsert s) = Raises ty msg"
    using that(4)
    by (auto simp: prq_item_upsert [OF that(1-3)] Let_def emit_def new_events_def requeue_def
        log_msg_def bump_def item_insert_data_def)
  have d: "retry_queue (fst ?p) = retry_queue s @ [?requeued] \<and>
      new_events s (fst ?p) = health_events s @ [Sleep_ms 200] \<and> snd ?p = n"
    if "retry_count item < 5" "fst (check_supabase_health s)"
      "\<not> serializable (sm_content (item_conversation item))"
    by (simp add: prq_item_unserializable [OF that] requeue_def log_msg_def bump_def
        new_events_def emit_def check_supabase_health_trace)
  have f: "prq_loop [] acc = acc" by (simp add: prq_loop_def)
  have g: "retry_count ?requeued = retry_count item + 1 \<and>
    item_session_id ?requeued = item_session_id item \<and>
    item_participant_id ?requeued = item_participant_id item \<and>
    item_conversation ?requeued = item_conversation item \<and>
    item_timestamp ?requeued = item_timestamp item" by simp
  show ?thesis
    unfolding Let_def
    using a b c d f g health_events_probe(3) [of s] process_retry_queue_loop [of s batch_size]
      prq_loop_Cons [of x xs acc]
    by blast
qed

lemma example_item_facts:
  "retry_count example_item < 5" "serializable (sm_content (item_conversation example_item))"
  "retry_count example_item = 0" "retry_count (bump example_item) = 1"
  by (simp_all add: example_item_def make_retry_item_def example_message_def bump_def)

lemma example_item_value:
  "example_item =
     \<lparr> retry_timestamp = ''2025-01-01T12:00:05'',
       item_session_id = ''session-1'',
       item_participant_id = ''user'',
       item_conversation =
         \<lparr> sm_role = ''user'', sm_content = PStr ''hello'',
           sm_timestamp = ''2025-01-01T10:00:00+00:00'', sm_message_id = ''u'' \<rparr>,
       item_raw_conversation = PStr ''hello'',
       item_message_count = 1,
       item_user_email = PStr '''',
       item_timestamp = ''2025-01-01T10:00:00+00:00'',
       item_email_sent = False,
       retry_count = 0 \<rparr>"
  by (simp add: example_item_def make_retry_item_def example_message_def)

theorem retry_drain_item_witness:
  "retry_queue (fst (prq_item example_item (unreachable_state, 0))) =
     [example_item\<lparr>retry_count := 1\<rparr>] \<and>
   new_events unreachable_state (fst (prq_item example_item (unreachable_state, 0))) =
     [Select_probe, Init_supabase] \<and>
   retry_queue (fst (prq_item example_item (example_state, 0))) = [] \<and>
   new_events example_state (fst (prq_item example_item (example_state, 0))) =
     [Select_probe,
      Upsert [\<lparr> row_session_id = ''session-1'',
                row_participant_id = ''user'',
                row_conversation = Json_safe
                  \<lparr> sm_role = ''user'', sm_content = PStr ''hello'',
                    sm_timestamp = ''2025-01-01T10:00:00+00:00'', sm_message_id = ''u'' \<rparr>,
                row_raw_conversation = PStr ''hello'',
                row_message_count = 1,
                row_user_email = PStr '''',
                row_timestamp = ''2025-01-01T10:00:00+00:00'',
                row_email_sent = False \<rparr>],
      Sleep_ms 200] \<and>
   snd (prq_item example_item (example_state, 0)) = 1 \<and>
   retry_queue (fst (prq_item example_item (timeout_state, 0))) =
     [example_item\<lparr>retry_count := 1\<rparr>] \<and>
   item_session_id (example_item\<lparr>retry_count := 1\<rparr>) = ''session-1'' \<and>
   sm_content (item_conversation (example_item\<lparr>retry_count := 1\<rparr>)) = PStr ''hello''"
proof -
  have u: "\<not> fst (check_supabase_health unreachable_state)"
    "health_events unreachable_state = [Select_probe, Init_supabase]"
    "retry_queue unreachable_state = []"
    by (simp_all add: unreachable_state_def example_state_def check_supabase_health_def
        init_supabase_def log_msg_def health_events_def)
  have x: "fst (check_supabase_health example_state)"
    "upsert_results example_state (n_upsert example_state) = Response True False"
    "retry_queue example_state = []" "health_events example_state = [Select_probe]"
    by (simp_all add: example_state_def check_supabase_health_def health_events_def)
  have t: "fst (check_supabase_health timeout_state)"
    "upsert_results timeout_state (n_upsert timeout_state) = Raises ''TimeoutError'' ''network timeout''"
    "retry_queue timeout_state = []"
    by (simp_all add: timeout_state_def example_state_def check_supabase_health_def)
  have 1: "retry_queue (fst (prq_item example_item (unreachable_state, 0))) =
        retry_queue unreachable_state @ [example_item\<lparr>retry_count := retry_count example_item + 1\<rparr>] \<and>
      new_events unreachable_state (fst (prq_item example_item (unreachable_state, 0))) =
        health_events unreachable_state"
    using retry_drain_item [where item = example_item and s = unreachable_state and n = 0]
      example_item_facts(1) u(1)
    unfolding Let_def by blast
  have 2: "retry_queue (fst (prq_item example_item (example_state, 0))) = retry_queue example_state \<and>
      new_events example_state (fst (prq_item example_item (example_state, 0))) =
        health_events example_state @
        [Upsert [\<lparr> row_session_id = item_session_id example_item,
                row_participant_id = item_participant_id example_item,
                row_conversation = Json_safe (item_conversation example_item),
                row_raw_conversation = item_raw_conversation example_item,
                row_message_count = item_message_count example_item,
                row_user_email = item_user_email example_item,
                row_timestamp = item_timestamp example_item,
                row_email_sent = item_email_sent example_item \<rparr>], Sleep_ms 200] \<and>
      snd (prq_item example_item (example_state, 0)) = Suc 0"
    using retry_drain_item [where item = example_item and s = example_state and n = 0
        and e = False] example_item_facts(1,2) x(1,2)
    unfolding Let_def by blast
  have 3: "retry_queue (fst (prq_item example_item (timeout_state, 0))) =
        retry_queue timeout_state @ [example_item\<lparr>retry_count := retry_count example_item + 1\<rparr>]"
    using retry_drain_item [where item = example_item and s = timeout_state and n = 0
        and ty = "''TimeoutError''" and msg = "''network timeout''"]
      example_item_facts(1,2) t(1,2)
    unfolding Let_def by blast
  have 4: "item_session_id example_item = ''session-1''"
    "item_participant_id example_item = ''user''"
    "item_conversation example_item =
       \<lparr> sm_role = ''user'', sm_content = PStr ''hello'',
         sm_timestamp = ''2025-01-01T10:00:00+00:00'', sm_message_id = ''u'' \<rparr>"
    "item_raw_conversation example_item = PStr ''hello''"
    "item_message_count example_item = 1"
    "item_user_email example_item = PStr ''''"
    "item_timestamp example_item = ''2025-01-01T10:00:00+00:00''"
    "item_email_sent example_item = False"
    by (simp_all add: example_item_value)
  show ?thesis
    using 1 2 3 u(2,3) x(3,4) t(3) example_item_facts(3) by (simp add: 4)
qed

text \<open>
  Claim C7. An item popped by a drain with retry_count 5 or more is dropped: the drain
  logs a warning, makes no call for it (no probe, no upsert) and does not put it back.
  After a drain the queue is the part that was not popped followed by items pushed
  back, which are popped items of retry_count below 5, each with its count one higher;
  every upsert of the drain is the row of such an item. So an item is pushed back at
  most five times.
\<close>

theorem exhausted_item_dropped:
  "(retry_count item \<ge> 5 \<longrightarrow>
      new_events s (fst (prq_item item (s, n))) = [] \<and>
      retry_queue (fst (prq_item item (s, n))) = retry_queue s \<and>
      snd (prq_item item (s, n)) = n \<and>
      n_select (fst (prq_item item (s, n))) = n_select s \<and>
      n_init (fst (prq_item item (s, n))) = n_init s \<and>
      n_upsert (fst (prq_item item (s, n))) = n_upsert s \<and>
      logs (fst (prq_item item (s, n))) =
        logs s @ [(Warning, ''Skipping message that has failed too many times'')]) \<and>
   (retry_queue s \<noteq> [] \<and> supabase s \<longrightarrow>
      (\<exists>ys. retry_queue (snd (process_retry_queue batch_size s)) =
              drop (min batch_size (length (retry_queue s))) (retry_queue s) @ map bump ys \<and>
            subseq ys (filter (\<lambda>i. retry_count i < 5)
                         (take (min batch_size (length (retry_queue s))) (retry_queue s))) \<and>
            subseq (filter is_upsert (new_events s (snd (process_retry_queue batch_size s))))
              (map (\<lambda>i. Upsert [item_insert_data i])
                 (filter (\<lambda>i. retry_count i < 5)
                    (take (min batch_size (length (retry_queue s))) (retry_queue s)))) \<and>
            fst (process_retry_queue batch_size s) + length ys =
              length (filter (\<lambda>i. retry_count i < 5)
                        (take (min batch_size (length (retry_queue s))) (retry_queue s))))) \<and>
   retry_count (bump item) = retry_count item + 1"
proof -
  let ?k = "min batch_size (length (retry_queue s))"
  let ?s0 = "s\<lparr>retry_queue := drop ?k (retry_queue s)\<rparr>"
  let ?xs = "take ?k (retry_queue s)"
  have a: "retry_count item \<ge> 5 \<longrightarrow>
      new_events s (fst (prq_item item (s, n))) = [] \<and>
      retry_queue (fst (prq_item item (s, n))) = retry_queue s \<and>
      snd (prq_item item (s, n)) = n \<and>
      n_select (fst (prq_item item (s, n))) = n_select s \<and>
      n_init (fst (prq_item item (s, n))) = n_init s \<and>
      n_upsert (fst (prq_item item (s, n))) = n_upsert s \<and>
      logs (fst (prq_item item (s, n))) =
        logs s @ [(Warning, ''Skipping message that has failed too many times'')]"
    by (simp add: prq_item_exhausted log_msg_def new_events_def)
  have b: "\<exists>ys. retry_queue (snd (process_retry_queue batch_size s)) =
              drop ?k (retry_queue s) @ map bump ys \<and>
            subseq ys (filter (\<lambda>i. retry_count i < 5) ?xs) \<and>
            subseq (filter is_upsert (new_events s (snd (process_retry_queue batch_size s))))
              (map (\<lambda>i. Upsert [item_insert_data i]) (filter (\<lambda>i. retry_count i < 5) ?xs)) \<and>
            fst (process_retry_queue batch_size s) + length ys =
              length (filter (\<lambda>i. retry_count i < 5) ?xs)"
    if h: "retry_queue s \<noteq> []" "supabase s"
  proof -
    obtain ys evs where l:
      "retry_queue (fst (prq_loop ?xs (?s0, 0))) = retry_queue ?s0 @ map bump ys"
      "subseq ys (filter (\<lambda>i. retry_count i < 5) ?xs)"
      "trace (fst (prq_loop ?xs (?s0, 0))) = trace ?s0 @ evs"
      "subseq (filter is_upsert evs)
         (map (\<lambda>i. Upsert [item_insert_data i]) (filter (\<lambda>i. retry_count i < 5) ?xs))"
      "snd (prq_loop ?xs (?s0, 0)) + length ys = 0 + length (filter (\<lambda>i. retry_count i < 5) ?xs)"
      using prq_loop_summary [of ?xs ?s0 0] by blast
    have "new_events s (fst (prq_loop ?xs (?s0, 0))) = evs"
      using l(3) by (simp add: new_events_def)
    then show ?thesis
      using l(1,2,4,5)
      by (intro exI [of _ ys]) (simp add: process_retry_queue_loop [OF h])
  qed
  have c: "retry_count (bump item) = retry_count item + 1" by (simp add: bump_def)
  show ?thesis using a b c by blast
qed

theorem exhausted_item_dropped_witness:
  "retry_count exhausted_item = 5 \<and>
   new_events example_state (fst (prq_item exhausted_item (example_state, 0))) = [] \<and>
   retry_queue (snd (process_retry_queue 5 exhausted_state)) = [] \<and>
   filter is_upsert (new_events exhausted_state (snd (process_retry_queue 5 exhausted_state))) = [] \<and>
   fst (process_retry_queue 5 exhausted_state) = 0"
proof -
  have r: "retry_count exhausted_item = 5" "5 \<le> retry_count exhausted_item"
    by (simp_all add: exhausted_item_def)
  have q: "retry_queue exhausted_state = [exhausted_item]" "supabase exhausted_state"
    by (simp_all add: exhausted_state_def example_state_def)
  have k: "take (min 5 (length (retry_queue exhausted_state))) (retry_queue exhausted_state) =
      [exhausted_item]"
    "drop (min 5 (length (retry_queue exhausted_state))) (retry_queue exhausted_state) = []"
    by (simp_all add: q)
  have 1: "new_events example_state (fst (prq_item exhausted_item (example_state, 0))) = []"
    using exhausted_item_dropped [of exhausted_item example_state 0] r(2) by blast
  have "retry_queue exhausted_state \<noteq> [] \<and> supabase exhausted_state" by (simp add: q)
  then obtain ys where ys:
    "retry_queue (snd (process_retry_queue 5 exhausted_state)) =
       drop (min 5 (length (retry_queue exhausted_state))) (retry_queue exhausted_state) @ map bump ys"
    "subseq ys (filter (\<lambda>i. retry_count i < 5)
       (take (min 5 (length (retry_queue exhausted_state))) (retry_queue exhausted_state)))"
    "subseq (filter is_upsert (new_events exhausted_state (snd (process_retry_queue 5 exhausted_state))))
       (map (\<lambda>i. Upsert [item_insert_data i])
          (filter (\<lambda>i. retry_count i < 5)
             (take (min 5 (length (retry_queue exhausted_state))) (retry_queue exhausted_state))))"
    "fst (process_retry_queue 5 exhausted_state) + length ys =
       length (filter (\<lambda>i. retry_count i < 5)
          (take (min 5 (length (retry_queue exhausted_state))) (retry_queue exhausted_state)))"
    using exhausted_item_dropped [of exhausted_item exhausted_state 0 5] by blast
  from ys(2) have "ys = []" unfolding k by (simp add: r)
  with ys(1,3,4) have "retry_queue (snd (process_retry_queue 5 exhausted_state)) = []"
    "filter is_upsert (new_events exhausted_state (snd (process_retry_queue 5 exhausted_state))) = []"
    "fst (process_retry_queue 5 exhausted_state) = 0"
    unfolding k by (simp_all add: r)
  with 1 r(1) show ?thesis by simp
qed

text \<open>
  Claim C9, on the code. A round of the idle watchdog that finds more than 300 seconds
  of inactivity (here 360: the last message of the log is from second 1000 and the
  round runs at second 1360) appends the inactivity message to the log and spawns its
  store; then the round only logs an error and ends the watchdog loop. It starts no
  flush and no drain of the retry queue, and nothing that would end the session.
\<close>

theorem idle_watchdog_round_ends_only_the_watchdog:
  "fst (check_connection_status_round example_parse 1360 1000 example_state) = (1000, False) \<and>
   conversation_history
     (snd (check_connection_status_round example_parse 1360 1000 example_state)) = [0, 1] \<and>
   heap (snd (check_connection_status_round example_parse 1360 1000 example_state)) 1 =
     \<lparr>role = Some ''system'',
      content = Some (PStr ''Call automatically ended due to inactivity.''),
      timestamp = Some ''2025-01-01T10:00:05+00:00'', message_id = None,
      participant_id = None, metadata = None, extra = []\<rparr> \<and>
   trace (snd (check_connection_status_round example_parse 1360 1000 example_state)) =
     [Sleep_ms 120000, Spawn_store (Some ''session-1'') ''system'' 1] \<and>
   logs (snd (check_connection_status_round example_parse 1360 1000 example_state)) =
     [(Warning, ''Auto-disconnect triggered after inactivity''),
      (Error, ''Error during auto-disconnect'')] \<and>
   retry_queue (snd (check_connection_status_round example_parse 1360 1000 example_state)) = []"
  by (simp add: check_connection_status_round_def latest_msg_time_def inactivity_threshold_def
      example_state_def example_message_def example_parse_def emit_def log_msg_def get_current_timestamp_def Let_def)

end
